theory Spec2Isabelle
  imports Complex_Main
begin

section \<open>Numbers and errors\<close>

text \<open>
  The program computes with IEEE double precision numbers (numpy's float64). They are
  modelled by their value: a real number, the two infinities, or NaN. Rounding, overflow
  and the sign of zero are idealised away: a finite result is the exact real result, and
  zero is the positive zero. What is kept is what decides the boundary behaviour of the
  program: a numpy division by zero does not raise, it yields an infinity or NaN, and
  NaN propagates through every operation and fails every comparison.
\<close>

datatype float64 = Num real | PInf | NInf | NaN

datatype py_error = ValueError | KeyError | EmptyDataError | ParserError

fun is_nan :: "float64 \<Rightarrow> bool" where
  "is_nan NaN = True"
| "is_nan _ = False"

fun is_finite :: "float64 \<Rightarrow> bool" where
  "is_finite (Num _) = True"
| "is_finite _ = False"

fun fneg :: "float64 \<Rightarrow> float64" where
  "fneg (Num a) = Num (- a)"
| "fneg PInf = NInf"
| "fneg NInf = PInf"
| "fneg NaN = NaN"

fun fadd :: "float64 \<Rightarrow> float64 \<Rightarrow> float64" where
  "fadd (Num a) (Num b) = Num (a + b)"
| "fadd NaN _ = NaN"
| "fadd _ NaN = NaN"
| "fadd PInf NInf = NaN"
| "fadd NInf PInf = NaN"
| "fadd PInf _ = PInf"
| "fadd _ PInf = PInf"
| "fadd NInf _ = NInf"
| "fadd _ NInf = NInf"

definition fsub :: "float64 \<Rightarrow> float64 \<Rightarrow> float64" where
  "fsub x y = fadd x (fneg y)"

text \<open>The infinity with the sign of a nonzero real (zero counts as positive).\<close>

definition signed_inf :: "bool \<Rightarrow> float64" where
  "signed_inf negative = (if negative then NInf else PInf)"

fun fmul :: "float64 \<Rightarrow> float64 \<Rightarrow> float64" where
  "fmul (Num a) (Num b) = Num (a * b)"
| "fmul NaN _ = NaN"
| "fmul _ NaN = NaN"
| "fmul (Num a) PInf = (if a = 0 then NaN else signed_inf (a < 0))"
| "fmul (Num a) NInf = (if a = 0 then NaN else signed_inf (0 < a))"
| "fmul PInf (Num b) = (if b = 0 then NaN else signed_inf (b < 0))"
| "fmul NInf (Num b) = (if b = 0 then NaN else signed_inf (0 < b))"
| "fmul PInf PInf = PInf"
| "fmul NInf NInf = PInf"
| "fmul PInf NInf = NInf"
| "fmul NInf PInf = NInf"

fun fdiv :: "float64 \<Rightarrow> float64 \<Rightarrow> float64" where
  "fdiv (Num a) (Num b) =
     (if b = 0 then (if a = 0 then NaN else signed_inf (a < 0)) else Num (a / b))"
| "fdiv NaN _ = NaN"
| "fdiv _ NaN = NaN"
| "fdiv (Num a) PInf = Num 0"
| "fdiv (Num a) NInf = Num 0"
| "fdiv PInf (Num b) = signed_inf (b < 0)"
| "fdiv NInf (Num b) = signed_inf (0 \<le> b)"
| "fdiv PInf PInf = NaN"
| "fdiv PInf NInf = NaN"
| "fdiv NInf PInf = NaN"
| "fdiv NInf NInf = NaN"

text \<open>\<^verbatim>\<open>x ** 2\<close> and \<^verbatim>\<open>x ** (1/2)\<close> on a float64 (C's \<^verbatim>\<open>pow\<close>), and \<^verbatim>\<open>np.sqrt\<close>.\<close>

definition fpow2 :: "float64 \<Rightarrow> float64" where
  "fpow2 x = fmul x x"

fun fpow_half :: "float64 \<Rightarrow> float64" where
  "fpow_half (Num a) = (if a < 0 then NaN else Num (sqrt a))"
| "fpow_half PInf = PInf"
| "fpow_half NInf = PInf"
| "fpow_half NaN = NaN"

fun fsqrt :: "float64 \<Rightarrow> float64" where
  "fsqrt (Num a) = (if a < 0 then NaN else Num (sqrt a))"
| "fsqrt PInf = PInf"
| "fsqrt NInf = NaN"
| "fsqrt NaN = NaN"

text \<open>Comparison \<^verbatim>\<open><\<close>: false as soon as one side is NaN.\<close>

fun fless :: "float64 \<Rightarrow> float64 \<Rightarrow> bool" where
  "fless (Num a) (Num b) = (a < b)"
| "fless NaN _ = False"
| "fless _ NaN = False"
| "fless NInf NInf = False"
| "fless NInf _ = True"
| "fless _ NInf = False"
| "fless PInf _ = False"
| "fless _ PInf = True"

text \<open>
  A sum of floats from left to right, starting at 0 (\<^verbatim>\<open>np.sum\<close>), and the sum that
  pandas takes over a column, which skips the NaN entries (\<^verbatim>\<open>skipna=True\<close>) and is 0
  on no entries.
\<close>

definition fsum :: "float64 list \<Rightarrow> float64" where
  "fsum xs = foldl fadd (Num 0) xs"

definition nansum :: "float64 list \<Rightarrow> float64" where
  "nansum xs = fsum (filter (\<lambda>x. \<not> is_nan x) xs)"

text \<open>\<^verbatim>\<open>np.mean\<close> of a one-dimensional array: the sum over the count; NaN on no entries.\<close>

definition np_mean :: "float64 list \<Rightarrow> float64" where
  "np_mean xs = fdiv (fsum xs) (Num (real (length xs)))"

text \<open>
  \<^verbatim>\<open>np.gradient(f)\<close> with unit spacing and \<^verbatim>\<open>edge_order=1\<close>: centered differences
  inside, one-sided differences at the two ends. It raises
  \<^verbatim>\<open>ValueError\<close> on fewer than two points.
\<close>

definition gradient :: "float64 list \<Rightarrow> py_error + float64 list" where
  "gradient f =
     (let n = length f in
      if n < 2 then Inl ValueError
      else Inr (map (\<lambda>i.
             if i = 0 then fdiv (fsub (f ! 1) (f ! 0)) (Num 1)
             else if i = n - 1 then fdiv (fsub (f ! (n - 1)) (f ! (n - 2))) (Num 1)
             else fdiv (fsub (f ! (i + 1)) (f ! (i - 1))) (Num 2)) [0..<n]))"

section \<open>Labelled series\<close>

text \<open>
  A pandas Series with string labels, in order. \<^verbatim>\<open>s[k]\<close> and \<^verbatim>\<open>s.drop(k)\<close> raise
  \<^verbatim>\<open>KeyError\<close> on a label that is absent. The tables of the program come out of
  \<^verbatim>\<open>read_csv\<close>, which renames repeated column names, so labels are distinct.
\<close>

type_synonym series = "(string \<times> float64) list"

definition series_get :: "series \<Rightarrow> string \<Rightarrow> py_error + float64" where
  "series_get s k = (case map_of s k of None \<Rightarrow> Inl KeyError | Some v \<Rightarrow> Inr v)"

definition series_drop :: "series \<Rightarrow> string \<Rightarrow> py_error + series" where
  "series_drop s k =
     (if k \<in> set (map fst s) then Inr (filter (\<lambda>p. fst p \<noteq> k) s) else Inl KeyError)"

text \<open>
  \<^verbatim>\<open>Series.std()\<close>: the sample standard deviation (\<^verbatim>\<open>ddof=1\<close>) of the entries that
  are not NaN, by the two-pass formula; NaN when fewer than two entries remain.
\<close>

definition nanvar :: "float64 list \<Rightarrow> float64" where
  "nanvar xs =
     (let vals = filter (\<lambda>x. \<not> is_nan x) xs; count = length vals in
      if count \<le> 1 then NaN
      else let avg = fdiv (fsum vals) (Num (real count))
           in fdiv (fsum (map (\<lambda>x. fpow2 (fsub avg x)) vals)) (Num (real (count - 1))))"

definition series_std :: "series \<Rightarrow> float64" where
  "series_std s = fsqrt (nanvar (map snd s))"

section \<open>PLQY from the region sums\<close>

text \<open>
  The table that \<^verbatim>\<open>counts_region\<close> returns: one row per column of the spectrum table
  (the measurements and \<^verbatim>\<open>mean_photon_counts\<close>), and the two columns
  \<^verbatim>\<open>excit_total_counts\<close> and \<^verbatim>\<open>fluor_total_counts\<close>.
\<close>

record counts_table =
  excit_total_counts :: series
  fluor_total_counts :: series

record plqy_result =
  photons_emitted_mean :: float64
  photons_abs_mean :: float64
  plqy_mean :: float64
  plqy_std :: float64

definition mean_label :: string where
  "mean_label = ''mean_photon_counts''"

text \<open>Sequencing of computations that may raise: the first error ends the run.\<close>

definition ebind :: "'e + 'a \<Rightarrow> ('a \<Rightarrow> 'e + 'b) \<Rightarrow> 'e + 'b" where
  "ebind m f = (case m of Inl e \<Rightarrow> Inl e | Inr x \<Rightarrow> f x)"

text \<open>Lines 748-752 of \<^verbatim>\<open>calculate_plqy\<close>: the point estimate.\<close>

definition plqy_point :: "counts_table \<Rightarrow> counts_table \<Rightarrow> py_error + (float64 \<times> float64 \<times> float64)" where
  "plqy_point df_blank_analysis df_sample_analysis =
     ebind (series_get (fluor_total_counts df_sample_analysis) mean_label) (\<lambda>sample_fluor.
     ebind (series_get (fluor_total_counts df_blank_analysis) mean_label) (\<lambda>blank_fluor.
     ebind (series_get (excit_total_counts df_blank_analysis) mean_label) (\<lambda>blank_laser.
     ebind (series_get (excit_total_counts df_sample_analysis) mean_label) (\<lambda>sample_laser.
       let photons_emitted = fsub sample_fluor blank_fluor;
           photons_abs = fsub blank_laser sample_laser
       in Inr (photons_emitted, photons_abs, fdiv photons_emitted photons_abs)))))"

text \<open>\<^verbatim>\<open>calculate_plqy_std\<close>, lines 765-789.\<close>

definition calculate_plqy_std :: "counts_table \<Rightarrow> counts_table \<Rightarrow> py_error + float64" where
  "calculate_plqy_std df_blank_analysis df_sample_analysis =
     ebind (series_get (excit_total_counts df_blank_analysis) mean_label) (\<lambda>blank_laser_average.
     ebind (series_get (fluor_total_counts df_blank_analysis) mean_label) (\<lambda>blank_fluor_average.
     ebind (series_get (excit_total_counts df_sample_analysis) mean_label) (\<lambda>sample_laser_average.
     ebind (series_get (fluor_total_counts df_sample_analysis) mean_label) (\<lambda>sample_fluor_average.
     ebind (series_drop (excit_total_counts df_blank_analysis) mean_label) (\<lambda>blank_laser.
     ebind (series_drop (fluor_total_counts df_blank_analysis) mean_label) (\<lambda>blank_fluor.
     ebind (series_drop (excit_total_counts df_sample_analysis) mean_label) (\<lambda>sample_laser.
     ebind (series_drop (fluor_total_counts df_sample_analysis) mean_label) (\<lambda>sample_fluor.
       let blank_laser_var = fpow2 (series_std blank_laser);
           blank_fluor_var = fpow2 (series_std blank_fluor);
           sample_laser_var = fpow2 (series_std sample_laser);
           sample_fluor_var = fpow2 (series_std sample_fluor);
           qy_average = fdiv (fsub sample_fluor_average blank_fluor_average)
                             (fsub blank_laser_average sample_laser_average);
           qy_std_a = fdiv (fadd sample_fluor_var blank_fluor_var)
                           (fpow2 (fsub sample_fluor_average blank_fluor_average));
           qy_std_b = fdiv (fadd blank_laser_var sample_laser_var)
                           (fpow2 (fsub blank_laser_average sample_laser_average))
       in Inr (fmul qy_average (fpow_half (fadd qy_std_a qy_std_b)))))))))))"

text \<open>
  The estimate of \<^verbatim>\<open>calculate_plqy\<close> from the two analysis tables: the point estimate,
  then the standard deviation.
\<close>

definition plqy_estimate :: "counts_table \<Rightarrow> counts_table \<Rightarrow> py_error + plqy_result" where
  "plqy_estimate df_blank_analysis df_sample_analysis =
     ebind (plqy_point df_blank_analysis df_sample_analysis) (\<lambda>(emitted, absorbed, plqy).
     ebind (calculate_plqy_std df_blank_analysis df_sample_analysis) (\<lambda>std.
       Inr \<lparr>photons_emitted_mean = emitted, photons_abs_mean = absorbed,
            plqy_mean = plqy, plqy_std = std\<rparr>))"

section \<open>Region integration\<close>

text \<open>
  A pandas DataFrame by columns: the column names in order, each with its values. Every
  column of a DataFrame has the same number of rows.
\<close>

type_synonym dataframe = "(string \<times> float64 list) list"

definition df_col :: "dataframe \<Rightarrow> string \<Rightarrow> py_error + float64 list" where
  "df_col df name = (case map_of df name of None \<Rightarrow> Inl KeyError | Some col \<Rightarrow> Inr col)"

text \<open>\<^verbatim>\<open>df_power.loc[0].array\<close>: the values of the row labelled 0.\<close>

definition loc0_array :: "dataframe \<Rightarrow> py_error + float64 list" where
  "loc0_array df_power =
     (if df_power = [] \<or> list_ex (\<lambda>p. snd p = []) df_power then Inl KeyError
      else Inr (map (\<lambda>p. hd (snd p)) df_power))"

text \<open>\<^verbatim>\<open>df[mask]\<close> on one column: the rows where the boolean mask holds.\<close>

definition select_rows :: "bool list \<Rightarrow> 'a list \<Rightarrow> 'a list" where
  "select_rows keep col = map snd (filter fst (zip keep col))"

text \<open>
  A Series divided by an array, position by position. numpy broadcasts an array of one
  element; any other difference in length raises \<^verbatim>\<open>ValueError\<close>.
\<close>

definition series_div :: "series \<Rightarrow> float64 list \<Rightarrow> py_error + series" where
  "series_div s arr =
     (if length arr = length s then Inr (map2 (\<lambda>p q. (fst p, fdiv (snd p) q)) s arr)
      else if length arr = 1 then Inr (map (\<lambda>p. (fst p, fdiv (snd p) (hd arr))) s)
      else Inl ValueError)"

text \<open>
  Lines 702-710 of \<^verbatim>\<open>counts_region\<close>, which lines 713-721 repeat for the second pair
  of bounds: the mask of the wavelengths strictly inside the bounds, the selected rows,
  the gradient of the selected wavelengths, every column times that gradient, the sum of
  every column, the \<^verbatim>\<open>wavelength\<close> entry dropped, and the division by the powers.
\<close>

definition signal_norm :: "dataframe \<Rightarrow> float64 list \<Rightarrow> real \<Rightarrow> real \<Rightarrow> py_error + series" where
  "signal_norm df laser_power_array bound_low bound_high =
     ebind (df_col df ''wavelength'') (\<lambda>wavelength.
       let signal_boolean =
             map (\<lambda>w. fless (Num bound_low) w \<and> fless w (Num bound_high)) wavelength;
           signal = map (\<lambda>p. (fst p, select_rows signal_boolean (snd p))) df
       in ebind (df_col signal ''wavelength'') (\<lambda>signal_wavelength.
          ebind (gradient signal_wavelength) (\<lambda>signal_delta_x.
            let signal_mul = map (\<lambda>p. (fst p, map2 fmul (snd p) signal_delta_x)) signal;
                signal_sum = map (\<lambda>p. (fst p, nansum (snd p))) signal_mul
            in ebind (series_drop signal_sum ''wavelength'') (\<lambda>signal_sum.
                 series_div signal_sum laser_power_array))))"

definition counts_region ::
  "dataframe \<Rightarrow> dataframe \<Rightarrow> real \<Rightarrow> real \<Rightarrow> real \<Rightarrow> real \<Rightarrow> py_error + counts_table" where
  "counts_region df df_power lbound_low lbound_high fbound_low fbound_high =
     ebind (loc0_array df_power) (\<lambda>laser_power_array.
     ebind (signal_norm df laser_power_array lbound_low lbound_high) (\<lambda>laser_signal_norm.
     ebind (signal_norm df laser_power_array fbound_low fbound_high) (\<lambda>fluor_signal_norm.
       Inr \<lparr>excit_total_counts = laser_signal_norm,
            fluor_total_counts = fluor_signal_norm\<rparr>)))"

text \<open>
  \<^verbatim>\<open>calculate_plqy\<close>: the four bounds are the integers read from the entry fields; the
  blank and the sample table are integrated, then the estimate is taken.
\<close>

definition calculate_plqy ::
  "dataframe \<Rightarrow> dataframe \<Rightarrow> dataframe \<Rightarrow> dataframe \<Rightarrow> int \<times> int \<times> int \<times> int
     \<Rightarrow> py_error + plqy_result" where
  "calculate_plqy df_blank df_blank_power df_sample df_sample_power bounds =
     (case bounds of (lbound_low, lbound_high, fbound_low, fbound_high) \<Rightarrow>
        ebind (counts_region df_blank df_blank_power (real_of_int lbound_low)
                 (real_of_int lbound_high) (real_of_int fbound_low) (real_of_int fbound_high))
          (\<lambda>df_blank_analysis.
        ebind (counts_region df_sample df_sample_power (real_of_int lbound_low)
                 (real_of_int lbound_high) (real_of_int fbound_low) (real_of_int fbound_high))
          (\<lambda>df_sample_analysis.
        plqy_estimate df_blank_analysis df_sample_analysis)))"

section \<open>Collection\<close>

text \<open>
  What \<^verbatim>\<open>np.mean(data_array, axis=0)\<close> returns: an array, or a single NaN when the list
  of arrays is empty.
\<close>

datatype ndarray = Scalar float64 | Vec "float64 list"

definition np_mean_axis0 :: "float64 list list \<Rightarrow> py_error + ndarray" where
  "np_mean_axis0 data_array =
     (case data_array of
        [] \<Rightarrow> Inr (Scalar NaN)
      | r # rs \<Rightarrow>
          if list_all (\<lambda>x. length x = length r) rs
          then Inr (Vec (map (\<lambda>j. np_mean (map (\<lambda>row. row ! j) data_array)) [0..<length r]))
          else Inl ValueError)"

text \<open>
  One subrun (lines 132-139 of \<^verbatim>\<open>collect_intensities\<close>) is taken as a step \<open>sampler\<close>
  on the state of the two instruments: it yields the intensities of one exposure and the
  mean power read meanwhile. The loop appends both to its two lists. The progress label
  and the queue that feeds the live plot are display only and left out.
\<close>

fun collect_loop ::
  "('s \<Rightarrow> (float64 list \<times> float64) \<times> 's) \<Rightarrow> nat \<Rightarrow> 's \<Rightarrow> float64 list list \<Rightarrow> float64 list
     \<Rightarrow> (float64 list list \<times> float64 list) \<times> 's" where
  "collect_loop sampler 0 s data_array power_mean_array = ((data_array, power_mean_array), s)"
| "collect_loop sampler (Suc n) s data_array power_mean_array =
     (case sampler s of
        ((data, power_mean), s') \<Rightarrow>
          collect_loop sampler n s' (data_array @ [data]) (power_mean_array @ [power_mean]))"

text \<open>
  \<^verbatim>\<open>collect_intensities\<close>: \<^verbatim>\<open>range(0, number_of_subruns)\<close> is empty for a count
  below 1.
\<close>

definition collect_intensities ::
  "('s \<Rightarrow> (float64 list \<times> float64) \<times> 's) \<Rightarrow> int \<Rightarrow> 's
     \<Rightarrow> (py_error + (ndarray \<times> float64)) \<times> 's" where
  "collect_intensities sampler number_of_subruns s =
     (case collect_loop sampler (nat number_of_subruns) s [] [] of
        ((data_array, power_mean_array), s') \<Rightarrow>
          (case np_mean_axis0 data_array of
             Inl e \<Rightarrow> (Inl e, s')
           | Inr data_average \<Rightarrow> (Inr (data_average, np_mean power_mean_array), s')))"

text \<open>
  The table \<^verbatim>\<open>initialize_frame.df\<close>: the wavelengths and their spacing from
  \<^verbatim>\<open>init_spec\<close>, and the dark spectrum and the calibration once they are loaded. A
  column that is not there yet raises \<^verbatim>\<open>KeyError\<close>.
\<close>

record init_df =
  df_wavelength :: "float64 list"
  df_delta_x :: "float64 list"
  df_dark :: "float64 list option"
  df_irradcal :: "float64 list option"

definition init_spec :: "float64 list \<Rightarrow> py_error + init_df" where
  "init_spec wavelengths =
     ebind (gradient wavelengths) (\<lambda>dx.
       Inr \<lparr>df_wavelength = wavelengths, df_delta_x = dx, df_dark = None, df_irradcal = None\<rparr>)"

text \<open>
  An array minus a column. numpy broadcasts a scalar and an array of one element; any
  other difference in length raises \<^verbatim>\<open>ValueError\<close>.
\<close>

fun array_sub_series :: "ndarray \<Rightarrow> float64 list \<Rightarrow> py_error + float64 list" where
  "array_sub_series (Scalar x) col = Inr (map (\<lambda>d. fsub x d) col)"
| "array_sub_series (Vec v) col =
     (if length v = length col then Inr (map2 fsub v col)
      else if length v = 1 then Inr (map (\<lambda>d. fsub (hd v) d) col)
      else Inl ValueError)"

text \<open>
  Lines 483-485 of \<^verbatim>\<open>collect_multi\<close>:
  \<^verbatim>\<open>(intensities - df["dark"]) * df["irradcal"] / df["delta_x"] * df["wavelength"] / 1000\<close>.
  The columns of one table have one length and combine row by row.
\<close>

definition photon_counts :: "init_df \<Rightarrow> ndarray \<Rightarrow> py_error + float64 list" where
  "photon_counts df intensities =
     (case df_dark df of
        None \<Rightarrow> Inl KeyError
      | Some dark \<Rightarrow>
          ebind (array_sub_series intensities dark) (\<lambda>subtracted.
            case df_irradcal df of
              None \<Rightarrow> Inl KeyError
            | Some irradcal \<Rightarrow>
                Inr (map (\<lambda>x. fdiv x (Num 1000))
                      (map2 fmul
                         (map2 fdiv (map2 fmul subtracted irradcal) (df_delta_x df))
                         (df_wavelength df)))))"

text \<open>
  \<^verbatim>\<open>str(n)\<close> for the number of a measurement, and the assignment \<^verbatim>\<open>d[k] = v\<close> on a
  dictionary (or a new column of a table): a new key goes last, a key that is there
  keeps its place.
\<close>

definition digit_char :: "nat \<Rightarrow> char" where
  "digit_char d = ''0123456789'' ! d"

function str_nat :: "nat \<Rightarrow> string" where
  "str_nat n = (if n < 10 then [digit_char n] else str_nat (n div 10) @ [digit_char (n mod 10)])"
  by pat_completeness auto
termination
  by (relation "measure id") auto

declare str_nat.simps [simp del]

fun dict_set :: "('k \<times> 'v) list \<Rightarrow> 'k \<Rightarrow> 'v \<Rightarrow> ('k \<times> 'v) list" where
  "dict_set [] k v = [(k, v)]"
| "dict_set (p # ps) k v = (if fst p = k then (k, v) # ps else p # dict_set ps k v)"

text \<open>The number of rows of a table, and \<^verbatim>\<open>df.mean(axis=1)\<close>: for each row the mean of
  the entries that are not NaN.\<close>

definition nrows :: "dataframe \<Rightarrow> nat" where
  "nrows df = (case df of [] \<Rightarrow> 0 | p # _ \<Rightarrow> length (snd p))"

definition nanmean :: "float64 list \<Rightarrow> float64" where
  "nanmean xs =
     (let vals = filter (\<lambda>x. \<not> is_nan x) xs in fdiv (fsum vals) (Num (real (length vals))))"

definition row_means :: "dataframe \<Rightarrow> float64 list" where
  "row_means df = map (\<lambda>i. nanmean (map (\<lambda>p. snd p ! i) df)) [0..<nrows df]"

text \<open>
  \<^verbatim>\<open>collect_multi\<close>. Each turn of the loop collects one measurement, converts it and
  stores it under \<^verbatim>\<open>meas_n\<close>, and stores its power under \<^verbatim>\<open>measn_power\<close> as a column
  of one row. \<^verbatim>\<open>pd.concat\<close> raises \<^verbatim>\<open>ValueError\<close> on no measurement. The column of
  the row means is added to each table, and the wavelengths go first in the spectrum
  table.
\<close>

fun collect_multi_loop ::
  "('s \<Rightarrow> (float64 list \<times> float64) \<times> 's) \<Rightarrow> int \<Rightarrow> init_df \<Rightarrow> nat \<Rightarrow> nat \<Rightarrow> 's
     \<Rightarrow> dataframe \<Rightarrow> dataframe \<Rightarrow> (py_error + (dataframe \<times> dataframe)) \<times> 's" where
  "collect_multi_loop sampler subruns df 0 n s inten_dict power_dict =
     (Inr (inten_dict, power_dict), s)"
| "collect_multi_loop sampler subruns df (Suc k) n s inten_dict power_dict =
     (case collect_intensities sampler subruns s of
        (Inl e, s') \<Rightarrow> (Inl e, s')
      | (Inr (intensities, power_meas), s') \<Rightarrow>
          (case photon_counts df intensities of
             Inl e \<Rightarrow> (Inl e, s')
           | Inr counts \<Rightarrow>
               collect_multi_loop sampler subruns df k (Suc n) s'
                 (dict_set inten_dict (''meas_'' @ str_nat n) counts)
                 (dict_set power_dict (''meas'' @ str_nat n @ ''_power'') [power_meas])))"

definition collect_multi ::
  "('s \<Rightarrow> (float64 list \<times> float64) \<times> 's) \<Rightarrow> int \<Rightarrow> init_df \<Rightarrow> int \<Rightarrow> 's
     \<Rightarrow> (py_error + (dataframe \<times> dataframe)) \<times> 's" where
  "collect_multi sampler subruns df number_of_meas s =
     (case collect_multi_loop sampler subruns df (nat number_of_meas) 0 s [] [] of
        (Inl e, s') \<Rightarrow> (Inl e, s')
      | (Inr (inten_dict, power_dict), s') \<Rightarrow>
          if inten_dict = [] then (Inl ValueError, s')
          else
            let df_multi = dict_set inten_dict ''mean_photon_counts'' (row_means inten_dict);
                df_multi = (''wavelength'', df_wavelength df) # df_multi;
                df_power = dict_set power_dict ''laser_power_mean_uA'' (row_means power_dict)
            in (Inr (df_multi, df_power), s'))"

section \<open>Saving and reloading a collection\<close>

text \<open>
  A CSV file is its lines, a line is its cells, and the blank line has no cell. How pandas
  writes a float as text and reads it back is not part of the program: the two are the
  parameters \<open>render\<close> and \<open>parse\<close>.

  \<^verbatim>\<open>df.to_csv(path, mode="a", index=False)\<close> appends the line of the column names and
  one line per row.
\<close>

definition to_csv :: "(float64 \<Rightarrow> string) \<Rightarrow> dataframe \<Rightarrow> string list list" where
  "to_csv render df =
     map fst df # map (\<lambda>i. map (\<lambda>p. render (snd p ! i)) df) [0..<nrows df]"

text \<open>
  \<^verbatim>\<open>pd.read_csv(path, skiprows=...)\<close>: the lines whose index is to be skipped are
  dropped, then the blank lines; the first line left holds the column names and the
  others the rows. A row with fewer cells than names is filled with NaN, one with more
  cells is a \<^verbatim>\<open>ParserError\<close>, and no line at all is an \<^verbatim>\<open>EmptyDataError\<close>.
\<close>

definition parse_table :: "(string \<Rightarrow> float64) \<Rightarrow> string list list \<Rightarrow> py_error + dataframe" where
  "parse_table parse lines =
     (case filter (\<lambda>l. l \<noteq> []) lines of
        [] \<Rightarrow> Inl EmptyDataError
      | header # rows \<Rightarrow>
          if list_ex (\<lambda>r. length header < length r) rows then Inl ParserError
          else Inr (map (\<lambda>j. (header ! j,
                      map (\<lambda>r. if j < length r then parse (r ! j) else NaN) rows))
                    [0..<length header]))"

definition read_csv ::
  "(string \<Rightarrow> float64) \<Rightarrow> (nat \<Rightarrow> bool) \<Rightarrow> string list list \<Rightarrow> py_error + dataframe" where
  "read_csv parse skiprows lines =
     parse_table parse
       (map snd (filter (\<lambda>p. \<not> skiprows (fst p)) (zip [0..<length lines] lines)))"

text \<open>
  Lines 514-525 of \<^verbatim>\<open>collect_blank\<close> (and the same lines of \<^verbatim>\<open>collect_sample\<close>). The
  file name carries the time of day, so the file is new: it receives the power table,
  a blank line and the spectrum table. It is then read twice: past the first three lines
  for the spectrum table, and lines 0 and 1 alone for the power table.
\<close>

definition written_file :: "(float64 \<Rightarrow> string) \<Rightarrow> dataframe \<Rightarrow> dataframe \<Rightarrow> string list list" where
  "written_file render df df_power = to_csv render df_power @ [[]] @ to_csv render df"

definition save_and_reload ::
  "(float64 \<Rightarrow> string) \<Rightarrow> (string \<Rightarrow> float64) \<Rightarrow> dataframe \<Rightarrow> dataframe
     \<Rightarrow> py_error + (dataframe \<times> dataframe)" where
  "save_and_reload render parse df df_power =
     (let file = written_file render df df_power in
      ebind (read_csv parse (\<lambda>x. x < 3) file) (\<lambda>df_reloaded.
      ebind (read_csv parse (\<lambda>x. x \<notin> {0, 1}) file) (\<lambda>df_power_reloaded.
        Inr (df_reloaded, df_power_reloaded))))"

text \<open>
  \<^verbatim>\<open>collect_blank\<close>, and \<^verbatim>\<open>collect_sample\<close> with the same lines: the collected tables
  are kept, written, and read back for the analysis.
\<close>

definition collect_blank ::
  "(float64 \<Rightarrow> string) \<Rightarrow> (string \<Rightarrow> float64) \<Rightarrow> ('s \<Rightarrow> (float64 list \<times> float64) \<times> 's)
     \<Rightarrow> int \<Rightarrow> init_df \<Rightarrow> int \<Rightarrow> 's
     \<Rightarrow> (py_error + ((dataframe \<times> dataframe) \<times> (dataframe \<times> dataframe))) \<times> 's" where
  "collect_blank render parse sampler subruns df number_of_meas s =
     (case collect_multi sampler subruns df number_of_meas s of
        (Inl e, s') \<Rightarrow> (Inl e, s')
      | (Inr (df_blank, df_blank_power), s') \<Rightarrow>
          (ebind (save_and_reload render parse df_blank df_blank_power) (\<lambda>reloaded.
             Inr ((df_blank, df_blank_power), reloaded)), s'))"

section \<open>Notions of the specification\<close>

text \<open>
  The per-measurement values of a column of the analysis table: every row but
  \<^verbatim>\<open>mean_photon_counts\<close>.
\<close>

definition per_measurement :: "series \<Rightarrow> float64 list" where
  "per_measurement s = map snd (filter (\<lambda>p. fst p \<noteq> mean_label) s)"

text \<open>
  The sample variance of the specification, over the reals: the squared deviations from
  the arithmetic mean, summed and divided by one less than the count. It is the square
  of the sample standard deviation.
\<close>

definition sample_variance :: "real list \<Rightarrow> real" where
  "sample_variance xs =
     (\<Sum>x\<leftarrow>xs. (x - sum_list xs / real (length xs))\<^sup>2) / (real (length xs) - 1)"

text \<open>
  Region integration in the words of the specification, over the reals: the entries of a
  column at the wavelengths strictly between the bounds, the local spacing of the
  selected wavelengths (centered differences inside, one-sided at the two ends), and the
  sum of selected intensity times local spacing.
\<close>

definition spec_select :: "real \<Rightarrow> real \<Rightarrow> real list \<Rightarrow> 'a list \<Rightarrow> 'a list" where
  "spec_select lo hi wl col = map snd (filter (\<lambda>p. lo < fst p \<and> fst p < hi) (zip wl col))"

definition spec_spacing :: "real list \<Rightarrow> nat \<Rightarrow> real" where
  "spec_spacing ws k =
     (if k = 0 then ws ! 1 - ws ! 0
      else if k = length ws - 1 then ws ! k - ws ! (k - 1)
      else (ws ! (k + 1) - ws ! (k - 1)) / 2)"

definition spec_region_sum :: "real \<Rightarrow> real \<Rightarrow> real list \<Rightarrow> real list \<Rightarrow> real" where
  "spec_region_sum lo hi wl col =
     (let ws = spec_select lo hi wl wl; cs = spec_select lo hi wl col
      in \<Sum>k<length ws. cs ! k * spec_spacing ws k)"

text \<open>
  The sampler invoked a number of times one after the other, in the words of the
  specification: the results in order, and the state of the instruments afterwards.
\<close>

fun sample_times ::
  "('s \<Rightarrow> (float64 list \<times> float64) \<times> 's) \<Rightarrow> nat \<Rightarrow> 's \<Rightarrow> (float64 list \<times> float64) list \<times> 's" where
  "sample_times sampler 0 s = ([], s)"
| "sample_times sampler (Suc n) s =
     (case sampler s of (r, s') \<Rightarrow>
        (case sample_times sampler n s' of (rs, s'') \<Rightarrow> (r # rs, s'')))"

text \<open>
  The table \<^verbatim>\<open>initialize_frame.df\<close> is a DataFrame: the columns it has are all of one
  length.
\<close>

definition init_df_rows :: "init_df \<Rightarrow> nat \<Rightarrow> bool" where
  "init_df_rows df n \<longleftrightarrow>
     length (df_wavelength df) = n \<and> length (df_delta_x df) = n
     \<and> (case df_dark df of None \<Rightarrow> True | Some d \<Rightarrow> length d = n)
     \<and> (case df_irradcal df of None \<Rightarrow> True | Some c \<Rightarrow> length c = n)"

section \<open>Basic facts\<close>

lemma ebind_Inl [simp]: "ebind (Inl e) f = Inl e"
  by (simp add: ebind_def)

lemma ebind_Inr [simp]: "ebind (Inr x) f = f x"
  by (simp add: ebind_def)

lemma fadd_NaN_right [simp]: "fadd x NaN = NaN"
  by (cases x) simp_all

lemma fmul_NaN_right [simp]: "fmul x NaN = NaN"
  by (cases x) simp_all

lemma fdiv_NaN_right [simp]: "fdiv x NaN = NaN"
  by (cases x) simp_all

lemma fdiv_one [simp]: "fdiv x (Num 1) = x"
  by (cases x) (simp_all add: signed_inf_def)

lemma nanvar_short: "length xs \<le> 1 \<Longrightarrow> nanvar xs = NaN"
proof -
  assume "length xs \<le> 1"
  moreover have "length (filter (\<lambda>x. \<not> is_nan x) xs) \<le> length xs"
    by simp
  ultimately have "length (filter (\<lambda>x. \<not> is_nan x) xs) \<le> 1"
    by linarith
  then show ?thesis
    by (simp add: nanvar_def Let_def)
qed

section \<open>The point estimate\<close>

text \<open>
  Claim C1. The point estimate reads the \<^verbatim>\<open>mean_photon_counts\<close> rows only:
  photons emitted is the sample emission sum minus the blank emission sum, photons
  absorbed is the blank excitation sum minus the sample excitation sum, and the PLQY is
  their quotient. The rows of the single measurements play no part.
\<close>

theorem plqy_point_from_mean_rows:
  assumes "series_get (excit_total_counts b) mean_label = Inr blank_excit"
    and "series_get (fluor_total_counts b) mean_label = Inr blank_emit"
    and "series_get (excit_total_counts s) mean_label = Inr sample_excit"
    and "series_get (fluor_total_counts s) mean_label = Inr sample_emit"
  shows "plqy_point b s =
           Inr (fsub sample_emit blank_emit, fsub blank_excit sample_excit,
                fdiv (fsub sample_emit blank_emit) (fsub blank_excit sample_excit))"
  using assms by (simp add: plqy_point_def Let_def)

text \<open>
  The example of the specification: blank sums (excitation 100, emission 10) and sample
  sums (excitation 40, emission 50) give 60 photons absorbed, 40 emitted and a PLQY of
  2/3, which is 0.667 within a thousandth.
\<close>

theorem plqy_point_from_mean_rows_witness:
  "plqy_point
     \<lparr>excit_total_counts = [(''meas_0'', Num 98), (''meas_1'', Num 102), (''mean_photon_counts'', Num 100)],
      fluor_total_counts = [(''meas_0'', Num 9), (''meas_1'', Num 11), (''mean_photon_counts'', Num 10)]\<rparr>
     \<lparr>excit_total_counts = [(''meas_0'', Num 39), (''meas_1'', Num 41), (''mean_photon_counts'', Num 40)],
      fluor_total_counts = [(''meas_0'', Num 48), (''meas_1'', Num 52), (''mean_photon_counts'', Num 50)]\<rparr>
   = Inr (Num 40, Num 60, Num (2 / 3)) \<and> \<bar>(2 / 3 :: real) - 0.667\<bar> < 0.001"
  using plqy_point_from_mean_rows
    [of "\<lparr>excit_total_counts = [(''meas_0'', Num 98), (''meas_1'', Num 102), (''mean_photon_counts'', Num 100)],
          fluor_total_counts = [(''meas_0'', Num 9), (''meas_1'', Num 11), (''mean_photon_counts'', Num 10)]\<rparr>"
        "Num 100" "Num 10"
        "\<lparr>excit_total_counts = [(''meas_0'', Num 39), (''meas_1'', Num 41), (''mean_photon_counts'', Num 40)],
          fluor_total_counts = [(''meas_0'', Num 48), (''meas_1'', Num 52), (''mean_photon_counts'', Num 50)]\<rparr>"
        "Num 40" "Num 50"]
  by (simp add: series_get_def mean_label_def fsub_def)

text \<open>
  Claim C6, as stated, fails. With 40 photons emitted and none absorbed the quotient of
  two float64 values is the positive infinity: it is not NaN, and nothing flags it.
\<close>

theorem plqy_zero_absorbed_counterexample:
  "plqy_point
     \<lparr>excit_total_counts = [(''meas_0'', Num 100), (''mean_photon_counts'', Num 100)],
      fluor_total_counts = [(''meas_0'', Num 10), (''mean_photon_counts'', Num 10)]\<rparr>
     \<lparr>excit_total_counts = [(''meas_0'', Num 100), (''mean_photon_counts'', Num 100)],
      fluor_total_counts = [(''meas_0'', Num 50), (''mean_photon_counts'', Num 50)]\<rparr>
   = Inr (Num 40, Num 0, PInf) \<and> \<not> is_nan PInf"
  by (simp add: plqy_point_def series_get_def mean_label_def fsub_def signed_inf_def)

text \<open>
  Claim C6, amended. When photons absorbed is 0 the point estimate raises nothing and is
  never a finite number, so never 0: it is NaN exactly when photons emitted is 0 or NaN,
  and an infinity otherwise.
\<close>

theorem plqy_zero_absorbed_not_finite:
  assumes "series_get (excit_total_counts b) mean_label = Inr blank_excit"
    and "series_get (fluor_total_counts b) mean_label = Inr blank_emit"
    and "series_get (excit_total_counts s) mean_label = Inr sample_excit"
    and "series_get (fluor_total_counts s) mean_label = Inr sample_emit"
    and "fsub blank_excit sample_excit = Num 0"
  shows "\<exists>q. plqy_point b s = Inr (fsub sample_emit blank_emit, Num 0, q)
             \<and> \<not> is_finite q \<and> q \<noteq> Num 0
             \<and> (is_nan q \<longleftrightarrow>
                  fsub sample_emit blank_emit = Num 0 \<or> is_nan (fsub sample_emit blank_emit))"
  using assms
  by (cases "fsub sample_emit blank_emit") (auto simp add: plqy_point_def Let_def signed_inf_def)

theorem plqy_zero_absorbed_not_finite_witness:
  "\<exists>q. plqy_point
         \<lparr>excit_total_counts = [(''meas_0'', Num 70), (''mean_photon_counts'', Num 70)],
          fluor_total_counts = [(''meas_0'', Num 10), (''mean_photon_counts'', Num 10)]\<rparr>
         \<lparr>excit_total_counts = [(''meas_0'', Num 70), (''mean_photon_counts'', Num 70)],
          fluor_total_counts = [(''meas_0'', Num 10), (''mean_photon_counts'', Num 10)]\<rparr>
       = Inr (Num 0, Num 0, q) \<and> \<not> is_finite q \<and> q \<noteq> Num 0 \<and> is_nan q"
  using plqy_zero_absorbed_not_finite
    [of "\<lparr>excit_total_counts = [(''meas_0'', Num 70), (''mean_photon_counts'', Num 70)],
          fluor_total_counts = [(''meas_0'', Num 10), (''mean_photon_counts'', Num 10)]\<rparr>"
        "Num 70" "Num 10"
        "\<lparr>excit_total_counts = [(''meas_0'', Num 70), (''mean_photon_counts'', Num 70)],
          fluor_total_counts = [(''meas_0'', Num 10), (''mean_photon_counts'', Num 10)]\<rparr>"
        "Num 70" "Num 10"]
  by (simp add: series_get_def mean_label_def fsub_def)

section \<open>The propagated standard deviation\<close>

lemma series_drop_of_get:
  "series_get s k = Inr v \<Longrightarrow> series_drop s k = Inr (filter (\<lambda>p. fst p \<noteq> k) s)"
  by (force simp add: series_get_def series_drop_def split: option.splits dest: map_of_SomeD)

lemma foldl_fadd_Num: "foldl fadd (Num a) (map Num xs) = Num (a + sum_list xs)"
  by (induction xs arbitrary: a) (simp_all add: add.assoc)

lemma fsum_Num: "fsum (map Num xs) = Num (sum_list xs)"
  by (simp add: fsum_def foldl_fadd_Num)

lemma filter_not_nan_Num: "filter (\<lambda>x. \<not> is_nan x) (map Num xs) = map Num xs"
  by (induction xs) simp_all

lemma sample_variance_nonneg: "2 \<le> length xs \<Longrightarrow> 0 \<le> sample_variance xs"
  unfolding sample_variance_def
  by (intro divide_nonneg_nonneg sum_list_nonneg) auto

text \<open>On two or more finite values the pandas variance is the sample variance.\<close>

lemma nanvar_Num:
  assumes "2 \<le> length xs"
  shows "nanvar (map Num xs) = Num (sample_variance xs)"
proof -
  let ?avg = "sum_list xs / real (length xs)"
  have m: "map (\<lambda>x. fpow2 (fsub (Num ?avg) x)) (map Num xs)
      = map Num (map (\<lambda>x. (x - ?avg)\<^sup>2) xs)"
    by (simp add: fpow2_def fsub_def power2_eq_square algebra_simps)
  have n0: "real (length xs) \<noteq> 0"
    using assms by auto
  have n1: "real (length xs - 1) = real (length xs) - 1"
    using assms by (simp add: of_nat_diff)
  have n2: "real (length xs) - 1 \<noteq> 0"
    using assms by auto
  have c: "\<not> length xs \<le> 1"
    using assms by simp
  have "nanvar (map Num xs) =
      fdiv (fsum (map (\<lambda>x. fpow2 (fsub (fdiv (fsum (map Num xs)) (Num (real (length xs)))) x))
                   (map Num xs)))
           (Num (real (length xs - 1)))"
    unfolding nanvar_def Let_def filter_not_nan_Num using c by simp
  also have "fdiv (fsum (map Num xs)) (Num (real (length xs))) = Num ?avg"
    using n0 by (simp add: fsum_Num)
  also have "fdiv (fsum (map (\<lambda>x. fpow2 (fsub (Num ?avg) x)) (map Num xs)))
                  (Num (real (length xs - 1)))
     = Num (sample_variance xs)"
    unfolding m fsum_Num n1 using n2 by (simp add: sample_variance_def)
  finally show ?thesis .
qed

lemma fpow2_fsqrt_Num:
  "2 \<le> length xs \<Longrightarrow> fpow2 (fsqrt (nanvar (map Num xs))) = Num (sample_variance xs)"
  using sample_variance_nonneg[of xs] by (simp add: nanvar_Num fpow2_def)

lemma calculate_plqy_std_unfold:
  assumes "series_get (excit_total_counts b) mean_label = Inr bx"
    and "series_get (fluor_total_counts b) mean_label = Inr be"
    and "series_get (excit_total_counts s) mean_label = Inr sx"
    and "series_get (fluor_total_counts s) mean_label = Inr se"
  shows "calculate_plqy_std b s =
     Inr (fmul (fdiv (fsub se be) (fsub bx sx))
           (fpow_half (fadd
              (fdiv (fadd (fpow2 (fsqrt (nanvar (per_measurement (fluor_total_counts s)))))
                          (fpow2 (fsqrt (nanvar (per_measurement (fluor_total_counts b))))))
                    (fpow2 (fsub se be)))
              (fdiv (fadd (fpow2 (fsqrt (nanvar (per_measurement (excit_total_counts b)))))
                          (fpow2 (fsqrt (nanvar (per_measurement (excit_total_counts s))))))
                    (fpow2 (fsub bx sx))))))"
  using assms
  by (simp add: calculate_plqy_std_def Let_def series_drop_of_get series_std_def
      per_measurement_def)

lemma sqrt_25th: "sqrt (1 / 25) = 1 / 5"
  by (rule real_sqrt_unique) (simp_all add: power2_eq_square)

text \<open>
  Claim C3. With finite region sums, two or more measurements in each set and nonzero
  photons emitted and absorbed, the propagated standard deviation is
  \<open>plqy * sqrt ((var_sample_em + var_blank_em) / emitted\<^sup>2 +
  (var_blank_ex + var_sample_ex) / absorbed\<^sup>2)\<close>,
  each variance being the sample variance of the per-measurement region sums, the mean
  row excluded.
\<close>

theorem plqy_std_propagation:
  assumes "series_get (excit_total_counts b) mean_label = Inr (Num blank_ex)"
    and "series_get (fluor_total_counts b) mean_label = Inr (Num blank_em)"
    and "series_get (excit_total_counts s) mean_label = Inr (Num sample_ex)"
    and "series_get (fluor_total_counts s) mean_label = Inr (Num sample_em)"
    and "per_measurement (excit_total_counts b) = map Num blank_exs" "2 \<le> length blank_exs"
    and "per_measurement (fluor_total_counts b) = map Num blank_ems" "2 \<le> length blank_ems"
    and "per_measurement (excit_total_counts s) = map Num sample_exs" "2 \<le> length sample_exs"
    and "per_measurement (fluor_total_counts s) = map Num sample_ems" "2 \<le> length sample_ems"
    and "sample_em - blank_em \<noteq> 0" and "blank_ex - sample_ex \<noteq> 0"
  shows "calculate_plqy_std b s =
     Inr (Num ((sample_em - blank_em) / (blank_ex - sample_ex) *
         sqrt ((sample_variance sample_ems + sample_variance blank_ems) / (sample_em - blank_em)\<^sup>2
             + (sample_variance blank_exs + sample_variance sample_exs) / (blank_ex - sample_ex)\<^sup>2)))"
proof -
  have nn: "0 \<le> (sample_variance sample_ems + sample_variance blank_ems) / (sample_em - blank_em)\<^sup>2
             + (sample_variance blank_exs + sample_variance sample_exs) / (blank_ex - sample_ex)\<^sup>2"
    using sample_variance_nonneg[OF assms(6)] sample_variance_nonneg[OF assms(8)]
      sample_variance_nonneg[OF assms(10)] sample_variance_nonneg[OF assms(12)]
    by (intro add_nonneg_nonneg divide_nonneg_nonneg) auto
  show ?thesis
    unfolding calculate_plqy_std_unfold[OF assms(1-4)] assms(5,7,9,11)
      fpow2_fsqrt_Num[OF assms(6)] fpow2_fsqrt_Num[OF assms(8)]
      fpow2_fsqrt_Num[OF assms(10)] fpow2_fsqrt_Num[OF assms(12)]
    using nn assms(13,14)
    by (simp add: fsub_def fpow2_def power2_eq_square)
qed

text \<open>
  Three measurements per set, each spread by one unit around its mean: every variance is
  1, ten photons are emitted and ten absorbed, so the standard deviation is
  \<open>1 * sqrt (2/100 + 2/100) = 1/5\<close>.
\<close>

theorem plqy_std_propagation_witness:
  "calculate_plqy_std
     \<lparr>excit_total_counts = [(''meas_0'', Num 49), (''meas_1'', Num 50), (''meas_2'', Num 51),
                            (''mean_photon_counts'', Num 50)],
      fluor_total_counts = [(''meas_0'', Num 4), (''meas_1'', Num 5), (''meas_2'', Num 6),
                            (''mean_photon_counts'', Num 5)]\<rparr>
     \<lparr>excit_total_counts = [(''meas_0'', Num 39), (''meas_1'', Num 40), (''meas_2'', Num 41),
                            (''mean_photon_counts'', Num 40)],
      fluor_total_counts = [(''meas_0'', Num 14), (''meas_1'', Num 15), (''meas_2'', Num 16),
                            (''mean_photon_counts'', Num 15)]\<rparr>
   = Inr (Num (1 / 5))"
  using plqy_std_propagation
    [of "\<lparr>excit_total_counts = [(''meas_0'', Num 49), (''meas_1'', Num 50), (''meas_2'', Num 51),
                                 (''mean_photon_counts'', Num 50)],
          fluor_total_counts = [(''meas_0'', Num 4), (''meas_1'', Num 5), (''meas_2'', Num 6),
                                (''mean_photon_counts'', Num 5)]\<rparr>"
        50 5
        "\<lparr>excit_total_counts = [(''meas_0'', Num 39), (''meas_1'', Num 40), (''meas_2'', Num 41),
                                 (''mean_photon_counts'', Num 40)],
          fluor_total_counts = [(''meas_0'', Num 14), (''meas_1'', Num 15), (''meas_2'', Num 16),
                                (''mean_photon_counts'', Num 15)]\<rparr>"
        40 15 "[49, 50, 51]" "[4, 5, 6]" "[39, 40, 41]" "[14, 15, 16]"]
  by (simp add: per_measurement_def series_get_def mean_label_def sample_variance_def sqrt_25th)

text \<open>
  Claim C10, as stated, fails in its last part. With one measurement per set and a sample
  that absorbs nothing (here the sample table is the blank table) the standard deviation
  is NaN, and the point estimate is NaN as well: it is not returned as a number.
\<close>

theorem single_measurement_counterexample:
  "plqy_estimate
     \<lparr>excit_total_counts = [(''meas_0'', Num 100), (''mean_photon_counts'', Num 100)],
      fluor_total_counts = [(''meas_0'', Num 10), (''mean_photon_counts'', Num 10)]\<rparr>
     \<lparr>excit_total_counts = [(''meas_0'', Num 100), (''mean_photon_counts'', Num 100)],
      fluor_total_counts = [(''meas_0'', Num 10), (''mean_photon_counts'', Num 10)]\<rparr>
   = Inr \<lparr>photons_emitted_mean = Num 0, photons_abs_mean = Num 0,
          plqy_mean = NaN, plqy_std = NaN\<rparr>"
  by (simp add: plqy_estimate_def plqy_point_def calculate_plqy_std_def series_get_def
      series_drop_def series_std_def nanvar_def mean_label_def fsub_def Let_def)

text \<open>
  Claim C10, amended. When each set holds exactly one measurement, the estimate raises
  nothing and its standard deviation is NaN, while its point estimate is still returned
  as it is with any number of measurements: the quotient of photons emitted and photons
  absorbed taken from the mean rows. That quotient is a float and need not be a number.
\<close>

theorem single_measurement_std_nan:
  assumes "series_get (excit_total_counts b) mean_label = Inr blank_ex"
    and "series_get (fluor_total_counts b) mean_label = Inr blank_em"
    and "series_get (excit_total_counts s) mean_label = Inr sample_ex"
    and "series_get (fluor_total_counts s) mean_label = Inr sample_em"
    and "length (per_measurement (excit_total_counts b)) = 1"
    and "length (per_measurement (fluor_total_counts b)) = 1"
    and "length (per_measurement (excit_total_counts s)) = 1"
    and "length (per_measurement (fluor_total_counts s)) = 1"
  shows "\<exists>r. plqy_estimate b s = Inr r \<and> plqy_std r = NaN
            \<and> plqy_point b s = Inr (photons_emitted_mean r, photons_abs_mean r, plqy_mean r)
            \<and> plqy_mean r = fdiv (fsub sample_em blank_em) (fsub blank_ex sample_ex)"
proof -
  have "calculate_plqy_std b s = Inr NaN"
    unfolding calculate_plqy_std_unfold[OF assms(1-4)]
    using assms(5-8) by (simp add: nanvar_short fpow2_def)
  moreover have "plqy_point b s =
     Inr (fsub sample_em blank_em, fsub blank_ex sample_ex,
          fdiv (fsub sample_em blank_em) (fsub blank_ex sample_ex))"
    using assms(1-4) by (simp add: plqy_point_def Let_def)
  ultimately show ?thesis
    by (simp add: plqy_estimate_def)
qed

theorem single_measurement_std_nan_witness:
  "\<exists>r. plqy_estimate
         \<lparr>excit_total_counts = [(''meas_0'', Num 100), (''mean_photon_counts'', Num 100)],
          fluor_total_counts = [(''meas_0'', Num 10), (''mean_photon_counts'', Num 10)]\<rparr>
         \<lparr>excit_total_counts = [(''meas_0'', Num 40), (''mean_photon_counts'', Num 40)],
          fluor_total_counts = [(''meas_0'', Num 50), (''mean_photon_counts'', Num 50)]\<rparr> = Inr r
       \<and> plqy_std r = NaN \<and> plqy_mean r = Num (2 / 3)"
  using single_measurement_std_nan
    [of "\<lparr>excit_total_counts = [(''meas_0'', Num 100), (''mean_photon_counts'', Num 100)],
          fluor_total_counts = [(''meas_0'', Num 10), (''mean_photon_counts'', Num 10)]\<rparr>"
        "Num 100" "Num 10"
        "\<lparr>excit_total_counts = [(''meas_0'', Num 40), (''mean_photon_counts'', Num 40)],
          fluor_total_counts = [(''meas_0'', Num 50), (''mean_photon_counts'', Num 50)]\<rparr>"
        "Num 40" "Num 50"]
  by (auto simp add: per_measurement_def series_get_def mean_label_def fsub_def)

section \<open>Region integration: the sums\<close>

lemma select_rows_map:
  "select_rows (map P wl) col = map snd (filter (\<lambda>p. P (fst p)) (zip wl col))"
proof (induction wl arbitrary: col)
  case Nil
  then show ?case by (simp add: select_rows_def)
next
  case (Cons w wl)
  then show ?case by (cases col) (simp_all add: select_rows_def)
qed

lemma select_rows_self:
  "select_rows (map P wl) wl = filter P wl"
  by (induction wl) (simp_all add: select_rows_def)

lemma select_rows_Num:
  "select_rows (map (\<lambda>w. fless (Num lo) w \<and> fless w (Num hi)) (map Num wl)) (map Num c)
     = map Num (spec_select lo hi wl c)"
proof (induction wl arbitrary: c)
  case Nil
  then show ?case by (simp add: select_rows_def spec_select_def)
next
  case (Cons w wl)
  then show ?case by (cases c) (simp_all add: select_rows_def spec_select_def)
qed

lemma spec_select_self: "spec_select lo hi wl wl = filter (\<lambda>w. lo < w \<and> w < hi) wl"
  by (induction wl) (simp_all add: spec_select_def)

lemma length_spec_select:
  "length c = length wl \<Longrightarrow> length (spec_select lo hi wl c) = length (spec_select lo hi wl wl)"
proof (induction wl arbitrary: c)
  case Nil
  then show ?case by (simp add: spec_select_def)
next
  case (Cons w wl)
  then show ?case by (cases c) (simp_all add: spec_select_def)
qed

lemma gradient_Num:
  assumes "2 \<le> length ws"
  shows "gradient (map Num ws) = Inr (map Num (map (spec_spacing ws) [0..<length ws]))"
proof -
  have "\<And>i. i < length ws \<Longrightarrow>
     (if i = 0 then fdiv (fsub (map Num ws ! 1) (map Num ws ! 0)) (Num 1)
      else if i = length ws - 1 then fdiv (fsub (map Num ws ! (length ws - 1)) (map Num ws ! (length ws - 2))) (Num 1)
      else fdiv (fsub (map Num ws ! (i + 1)) (map Num ws ! (i - 1))) (Num 2))
     = Num (spec_spacing ws i)"
    using assms by (auto simp add: spec_spacing_def fsub_def numeral_2_eq_2)
  then show ?thesis using assms
    by (simp add: gradient_def Let_def)
qed


lemma map_of_map_snd:
  "map_of (map (\<lambda>p. (fst p, f (snd p))) xs) k = map_option f (map_of xs k)"
  by (induction xs) auto

lemma df_col_map:
  "map_of rdf k = Some c \<Longrightarrow> df_col (map (\<lambda>p. (fst p, f (snd p))) rdf) k = Inr (f c)"
  by (simp add: df_col_def map_of_map_snd)

lemma map2_fmul_Num: "map2 fmul (map Num cs) (map Num ds) = map Num (map2 (*) cs ds)"
proof (induction cs arbitrary: ds)
  case Nil
  then show ?case by simp
next
  case (Cons c cs)
  then show ?case by (cases ds) simp_all
qed

lemma nansum_Num: "nansum (map Num xs) = Num (sum_list xs)"
  by (simp add: nansum_def filter_not_nan_Num fsum_Num)

lemma sum_list_map2_nth:
  "length cs = n \<Longrightarrow> sum_list (map2 (*) cs (map g [0..<n])) = (\<Sum>k<n. cs ! k * g k)"
proof -
  assume l: "length cs = n"
  have "map2 (*) cs (map g [0..<n]) = map (\<lambda>k. cs ! k * g k) [0..<n]"
    using l by (auto intro!: nth_equalityI)
  then show ?thesis
    by (simp add: sum_list_sum_nth atLeast0LessThan)
qed

lemma region_column_sum:
  assumes "length c = length wl"
  shows "sum_list (map2 (*) (spec_select lo hi wl c)
           (map (spec_spacing (spec_select lo hi wl wl)) [0..<length (spec_select lo hi wl wl)]))
         = spec_region_sum lo hi wl c"
  unfolding spec_region_sum_def Let_def
  by (rule sum_list_map2_nth) (rule length_spec_select[OF assms])

lemma signal_norm_finite:
  assumes wl: "map_of rdf ''wavelength'' = Some wl"
    and len: "\<forall>p\<in>set rdf. length (snd p) = length wl"
    and two: "2 \<le> length (spec_select lo hi wl wl)"
  shows "signal_norm (map (\<lambda>p. (fst p, map Num (snd p))) rdf) powers lo hi =
     series_div (map (\<lambda>p. (fst p, Num (spec_region_sum lo hi wl (snd p))))
                   (filter (\<lambda>p. fst p \<noteq> ''wavelength'') rdf)) powers"
proof -
  let ?df = "map (\<lambda>p. (fst p, map Num (snd p))) rdf"
  let ?keep = "map (\<lambda>w. fless (Num lo) w \<and> fless w (Num hi)) (map Num wl)"
  let ?ws = "spec_select lo hi wl wl"
  let ?ds = "map (spec_spacing ?ws) [0..<length ?ws]"
  have c1: "df_col ?df ''wavelength'' = Inr (map Num wl)"
    using wl by (rule df_col_map)
  have sig: "map (\<lambda>p. (fst p, select_rows ?keep (snd p))) ?df
      = map (\<lambda>p. (fst p, map Num (spec_select lo hi wl (snd p)))) rdf"
    by (simp add: select_rows_Num[simplified])
  have c2: "df_col (map (\<lambda>p. (fst p, map Num (spec_select lo hi wl (snd p)))) rdf) ''wavelength''
      = Inr (map Num ?ws)"
    using df_col_map[OF wl, where f = "\<lambda>c. map Num (spec_select lo hi wl c)"] .
  have g: "gradient (map Num ?ws) = Inr (map Num ?ds)"
    using two by (rule gradient_Num)
  have sums: "map (\<lambda>p. (fst p, nansum (snd p)))
       (map (\<lambda>p. (fst p, map2 fmul (snd p) (map Num ?ds)))
          (map (\<lambda>p. (fst p, map Num (spec_select lo hi wl (snd p)))) rdf))
      = map (\<lambda>p. (fst p, Num (spec_region_sum lo hi wl (snd p)))) rdf"
  proof -
    have pt: "nansum (map2 fmul (map Num (spec_select lo hi wl c))
                 (map (\<lambda>k. Num (spec_spacing ?ws k)) [0..<length ?ws]))
               = Num (spec_region_sum lo hi wl c)" if "length c = length wl" for c
    proof -
      have "map (\<lambda>k. Num (spec_spacing ?ws k)) [0..<length ?ws] = map Num ?ds"
        by simp
      then show ?thesis
        by (simp only: map2_fmul_Num nansum_Num region_column_sum[OF that])
    qed
    show ?thesis
      apply (simp only: map_map comp_def fst_conv snd_conv)
      apply (rule map_cong[OF refl])
      using len by (simp add: pt)
  qed
  have "(''wavelength'', wl) \<in> set rdf"
    using wl by (rule map_of_SomeD)
  then have mem: "''wavelength'' \<in> set (map fst (map (\<lambda>p. (fst p, Num (spec_region_sum lo hi wl (snd p)))) rdf))"
    by force
  have drop: "series_drop (map (\<lambda>p. (fst p, Num (spec_region_sum lo hi wl (snd p)))) rdf) ''wavelength''
      = Inr (map (\<lambda>p. (fst p, Num (spec_region_sum lo hi wl (snd p))))
               (filter (\<lambda>p. fst p \<noteq> ''wavelength'') rdf))"
    unfolding series_drop_def using mem by (simp add: filter_map comp_def)
  show ?thesis
    unfolding signal_norm_def Let_def c1 ebind_Inr
    unfolding sig c2 ebind_Inr g sums drop
    by (rule refl)
qed


lemma series_div_same_length:
  "length powers = length xs \<Longrightarrow>
   series_div (map (\<lambda>p. (fst p, f (snd p))) xs) powers
     = Inr (map2 (\<lambda>p q. (fst p, fdiv (f (snd p)) q)) xs powers)"
  by (simp add: series_div_def zip_map1 split_def)

text \<open>
  Claim C4. On a finite table with at least two wavelengths strictly inside each pair of
  bounds, \<^verbatim>\<open>counts_region\<close> returns, for every column other than the wavelengths,
  the region sum of the specification divided by the power reading at the same position:
  the points strictly between the bounds, the spacing taken by centered differences over
  the selected wavelengths alone, and the sum of intensity times spacing.
\<close>

theorem counts_region_integrates:
  assumes "map_of rdf ''wavelength'' = Some wl"
    and "\<forall>p\<in>set rdf. length (snd p) = length wl"
    and "loc0_array df_power = Inr powers"
    and "length powers = length (filter (\<lambda>p. fst p \<noteq> ''wavelength'') rdf)"
    and "2 \<le> length (spec_select lbound_low lbound_high wl wl)"
    and "2 \<le> length (spec_select fbound_low fbound_high wl wl)"
  shows "counts_region (map (\<lambda>p. (fst p, map Num (snd p))) rdf) df_power
           lbound_low lbound_high fbound_low fbound_high =
     Inr \<lparr>excit_total_counts =
            map2 (\<lambda>p q. (fst p, fdiv (Num (spec_region_sum lbound_low lbound_high wl (snd p))) q))
              (filter (\<lambda>p. fst p \<noteq> ''wavelength'') rdf) powers,
          fluor_total_counts =
            map2 (\<lambda>p q. (fst p, fdiv (Num (spec_region_sum fbound_low fbound_high wl (snd p))) q))
              (filter (\<lambda>p. fst p \<noteq> ''wavelength'') rdf) powers\<rparr>"
  unfolding counts_region_def assms(3) ebind_Inr
    signal_norm_finite[OF assms(1,2,5)] signal_norm_finite[OF assms(1,2,6)]
    series_div_same_length[OF assms(4), where f = "\<lambda>c. Num (spec_region_sum lbound_low lbound_high wl c)"]
    series_div_same_length[OF assms(4), where f = "\<lambda>c. Num (spec_region_sum fbound_low fbound_high wl c)"]
  by (rule refl)

text \<open>
  Two measurements and their mean. The wavelengths 400 and 410 and 710 sit on a bound and
  are left out; the two selected excitation points 402 and 405 get the spacing 3 of the
  selection, where the spacing of the whole axis there would be 2.5 and 4.
\<close>

theorem counts_region_integrates_witness:
  "counts_region
     [(''wavelength'', [Num 398, Num 400, Num 402, Num 405, Num 410, Num 500, Num 600, Num 710]),
      (''meas_0'', [Num 1, Num 1, Num 10, Num 20, Num 1, Num 4, Num 6, Num 1]),
      (''meas_1'', [Num 1, Num 1, Num 20, Num 40, Num 1, Num 8, Num 12, Num 1]),
      (''mean_photon_counts'', [Num 1, Num 1, Num 15, Num 30, Num 1, Num 6, Num 9, Num 1])]
     [(''meas0_power'', [Num 2]), (''meas1_power'', [Num 4]), (''laser_power_mean_uA'', [Num 3])]
     400 410 450 710
   = Inr \<lparr>excit_total_counts = [(''meas_0'', Num 45), (''meas_1'', Num 45), (''mean_photon_counts'', Num 45)],
          fluor_total_counts = [(''meas_0'', Num 500), (''meas_1'', Num 500), (''mean_photon_counts'', Num 500)]\<rparr>"
  using counts_region_integrates[of "[(''wavelength'', [398, 400, 402, 405, 410, 500, 600, 710]),
      (''meas_0'', [1, 1, 10, 20, 1, 4, 6, 1]),
      (''meas_1'', [1, 1, 20, 40, 1, 8, 12, 1]),
      (''mean_photon_counts'', [1, 1, 15, 30, 1, 6, 9, 1])]"
     "[398, 400, 402, 405, 410, 500, 600, 710]"
     "[(''meas0_power'', [Num 2]), (''meas1_power'', [Num 4]), (''laser_power_mean_uA'', [Num 3])]"
     "[Num 2, Num 4, Num 3]" 400 410 450 710]
  by (simp add: loc0_array_def spec_select_def spec_region_sum_def spec_spacing_def
      lessThan_Suc numeral_2_eq_2)

text \<open>
  Claim C5, as stated, fails. Bounds that select no wavelength (here 300 to 310, below the
  axis) do not give a sum of 0: the gradient of the empty selection raises
  \<^verbatim>\<open>ValueError\<close>, and so does \<^verbatim>\<open>counts_region\<close>.
\<close>

theorem empty_selection_counterexample:
  "counts_region
     [(''wavelength'', [Num 398, Num 400, Num 402, Num 405, Num 410, Num 500, Num 600, Num 710]),
      (''meas_0'', [Num 1, Num 1, Num 10, Num 20, Num 1, Num 4, Num 6, Num 1]),
      (''mean_photon_counts'', [Num 1, Num 1, Num 10, Num 20, Num 1, Num 4, Num 6, Num 1])]
     [(''meas0_power'', [Num 2]), (''laser_power_mean_uA'', [Num 2])]
     300 310 450 710
   = Inl ValueError"
  by (simp add: counts_region_def loc0_array_def signal_norm_def df_col_def select_rows_def
      gradient_def)


lemma gradient_short: "length f < 2 \<Longrightarrow> gradient f = Inl ValueError"
  by (simp add: gradient_def)

lemma gradient_cases: "gradient f = Inl ValueError \<or> (\<exists>g. gradient f = Inr g)"
  by (simp add: gradient_def Let_def)

lemma series_div_cases: "series_div s arr = Inl ValueError \<or> (\<exists>r. series_div s arr = Inr r)"
  by (simp add: series_div_def)

lemma df_col_selected:
  "df_col df k = Inr c \<Longrightarrow>
   df_col (map (\<lambda>p. (fst p, select_rows keep (snd p))) df) k = Inr (select_rows keep c)"
  by (simp add: df_col_def map_of_map_snd split: option.splits)

lemma signal_norm_unfold:
  assumes "df_col df ''wavelength'' = Inr wavelength"
  shows "signal_norm df powers lo hi =
     ebind (gradient (filter (\<lambda>w. fless (Num lo) w \<and> fless w (Num hi)) wavelength))
       (\<lambda>signal_delta_x.
          series_div
            (filter (\<lambda>p. fst p \<noteq> ''wavelength'')
               (map (\<lambda>p. (fst p, nansum (snd p)))
                  (map (\<lambda>p. (fst p, map2 fmul (snd p) signal_delta_x))
                     (map (\<lambda>p. (fst p, select_rows
                          (map (\<lambda>w. fless (Num lo) w \<and> fless w (Num hi)) wavelength) (snd p))) df))))
            powers)"
proof -
  have "map_of df ''wavelength'' = Some wavelength"
    using assms by (simp add: df_col_def split: option.splits)
  then have "(''wavelength'', wavelength) \<in> set df"
    by (rule map_of_SomeD)
  then have mem: "''wavelength'' \<in> fst ` set df"
    by force
  show ?thesis
    unfolding signal_norm_def Let_def assms ebind_Inr df_col_selected[OF assms] select_rows_self
    using mem by (simp add: series_drop_def image_image cong: if_cong)
qed


lemma signal_norm_short:
  assumes "df_col df ''wavelength'' = Inr wavelength"
    and "length (filter (\<lambda>w. fless (Num lo) w \<and> fless w (Num hi)) wavelength) < 2"
  shows "signal_norm df powers lo hi = Inl ValueError"
  unfolding signal_norm_unfold[OF assms(1)] gradient_short[OF assms(2)] by simp

lemma signal_norm_cases:
  assumes "df_col df ''wavelength'' = Inr wavelength"
  shows "signal_norm df powers lo hi = Inl ValueError \<or> (\<exists>r. signal_norm df powers lo hi = Inr r)"
proof -
  let ?sel = "filter (\<lambda>w. fless (Num lo) w \<and> fless w (Num hi)) wavelength"
  from gradient_cases[of ?sel] show ?thesis
  proof
    assume "gradient ?sel = Inl ValueError"
    then show ?thesis
      unfolding signal_norm_unfold[OF assms] by simp
  next
    assume "\<exists>g. gradient ?sel = Inr g"
    then obtain g where "gradient ?sel = Inr g" ..
    then show ?thesis
      unfolding signal_norm_unfold[OF assms] using series_div_cases by simp
  qed
qed

text \<open>
  Claim C5, amended. When either pair of bounds selects fewer than two wavelengths, in
  particular none, \<^verbatim>\<open>counts_region\<close> returns no sums at all: it raises
  \<^verbatim>\<open>ValueError\<close>.
\<close>

theorem small_selection_raises:
  assumes "df_col df ''wavelength'' = Inr wavelength"
    and "loc0_array df_power = Inr powers"
    and "length (filter (\<lambda>w. fless (Num lbound_low) w \<and> fless w (Num lbound_high)) wavelength) < 2
       \<or> length (filter (\<lambda>w. fless (Num fbound_low) w \<and> fless w (Num fbound_high)) wavelength) < 2"
  shows "counts_region df df_power lbound_low lbound_high fbound_low fbound_high = Inl ValueError"
  using assms(3)
proof
  assume "length (filter (\<lambda>w. fless (Num lbound_low) w \<and> fless w (Num lbound_high)) wavelength) < 2"
  then show ?thesis
    unfolding counts_region_def assms(2) ebind_Inr by (simp add: signal_norm_short[OF assms(1)])
next
  assume f: "length (filter (\<lambda>w. fless (Num fbound_low) w \<and> fless w (Num fbound_high)) wavelength) < 2"
  from signal_norm_cases[OF assms(1), of powers lbound_low lbound_high] show ?thesis
  proof
    assume "signal_norm df powers lbound_low lbound_high = Inl ValueError"
    then show ?thesis
      unfolding counts_region_def assms(2) ebind_Inr by simp
  next
    assume "\<exists>r. signal_norm df powers lbound_low lbound_high = Inr r"
    then obtain r where "signal_norm df powers lbound_low lbound_high = Inr r" ..
    then show ?thesis
      unfolding counts_region_def assms(2) ebind_Inr
      by (simp add: signal_norm_short[OF assms(1) f])
  qed
qed

theorem small_selection_raises_witness:
  "counts_region
     [(''wavelength'', [Num 398, Num 400, Num 402, Num 405, Num 410, Num 500, Num 600, Num 710]),
      (''meas_0'', [Num 1, Num 1, Num 10, Num 20, Num 1, Num 4, Num 6, Num 1]),
      (''mean_photon_counts'', [Num 1, Num 1, Num 10, Num 20, Num 1, Num 4, Num 6, Num 1])]
     [(''meas0_power'', [Num 2]), (''laser_power_mean_uA'', [Num 2])]
     400 410 720 800
   = Inl ValueError"
  using small_selection_raises[of "[(''wavelength'', [Num 398, Num 400, Num 402, Num 405, Num 410, Num 500, Num 600, Num 710]),
      (''meas_0'', [Num 1, Num 1, Num 10, Num 20, Num 1, Num 4, Num 6, Num 1]),
      (''mean_photon_counts'', [Num 1, Num 1, Num 10, Num 20, Num 1, Num 4, Num 6, Num 1])]"
      "[Num 398, Num 400, Num 402, Num 405, Num 410, Num 500, Num 600, Num 710]"
      "[(''meas0_power'', [Num 2]), (''laser_power_mean_uA'', [Num 2])]"
      "[Num 2, Num 2]" 400 410 720 800]
  by (simp add: df_col_def loc0_array_def)

section \<open>Collection: averaging and conversion\<close>

lemma length_sample_times: "length (fst (sample_times sampler n s)) = n"
proof (induction n arbitrary: s)
  case 0
  then show ?case by simp
next
  case (Suc n)
  obtain r s1 where st: "sampler s = (r, s1)"
    by (metis prod.exhaust)
  obtain rs1 s2 where rec: "sample_times sampler n s1 = (rs1, s2)"
    by (metis prod.exhaust)
  from Suc.IH[of s1] rec have "length rs1 = n"
    by simp
  with st rec show ?case
    by simp
qed

lemma collect_loop_sample_times:
  "sample_times sampler n s = (rs, s') \<Longrightarrow>
   collect_loop sampler n s da pa = ((da @ map fst rs, pa @ map snd rs), s')"
proof (induction n arbitrary: s s' da pa rs)
  case 0
  then show ?case by simp
next
  case (Suc n)
  obtain d p s1 where st: "sampler s = ((d, p), s1)"
    by (metis prod.exhaust)
  obtain rs1 s2 where rec: "sample_times sampler n s1 = (rs1, s2)"
    by (metis prod.exhaust)
  from Suc.prems st rec have "rs = (d, p) # rs1" "s' = s2"
    by simp_all
  with Suc.IH[OF rec] st show ?case
    by simp
qed

lemma np_mean_Num:
  "xs \<noteq> [] \<Longrightarrow> np_mean (map Num xs) = Num (sum_list xs / real (length xs))"
  by (simp add: np_mean_def fsum_Num)

lemma np_mean_axis0_Num:
  assumes "rows \<noteq> []" and "\<forall>r\<in>set rows. length r = n"
  shows "np_mean_axis0 (map (map Num) rows) =
     Inr (Vec (map (\<lambda>j. Num (sum_list (map (\<lambda>r. r ! j) rows) / real (length rows))) [0..<n]))"
proof -
  obtain r rs where rows: "rows = r # rs"
    using assms(1) by (cases rows) auto
  have lr: "length r = n" and all: "\<forall>x\<in>set rs. length x = n"
    using assms(2) rows by auto
  have col: "map (\<lambda>row. row ! j) (map (map Num) rows) = map Num (map (\<lambda>r. r ! j) rows)"
    if "j < n" for j
    using that assms(2) by simp
  have "np_mean_axis0 (map (map Num) rows) =
      Inr (Vec (map (\<lambda>j. np_mean (map (\<lambda>row. row ! j) (map (map Num) rows))) [0..<n]))"
    using lr all by (simp add: np_mean_axis0_def rows list_all_iff)
  also have "map (\<lambda>j. np_mean (map (\<lambda>row. row ! j) (map (map Num) rows))) [0..<n]
      = map (\<lambda>j. Num (sum_list (map (\<lambda>r. r ! j) rows) / real (length rows))) [0..<n]"
  proof (rule map_cong[OF refl])
    fix j assume "j \<in> set [0..<n]"
    then have "j < n" by simp
    show "np_mean (map (\<lambda>row. row ! j) (map (map Num) rows))
        = Num (sum_list (map (\<lambda>r. r ! j) rows) / real (length rows))"
      unfolding col[OF \<open>j < n\<close>] using np_mean_Num[of "map (\<lambda>r. r ! j) rows"] assms(1) by simp
  qed
  finally show ?thesis .
qed

text \<open>
  Claim C7. For a subrun count of at least 1, \<^verbatim>\<open>collect_intensities\<close> leaves the
  instruments in the state reached by exactly that many sampler invocations in sequence,
  and returns the element-wise arithmetic mean of their spectra, as long as the
  wavelength axis, together with the arithmetic mean of their mean powers.
\<close>

theorem collect_intensities_averages:
  assumes "1 \<le> number_of_subruns"
    and "sample_times sampler (nat number_of_subruns) s =
           (map (\<lambda>r. (map Num (fst r), Num (snd r))) rs, s')"
    and "\<forall>r\<in>set rs. length (fst r) = axis_length"
  shows "length rs = nat number_of_subruns \<and>
     collect_intensities sampler number_of_subruns s =
      (Inr (Vec (map (\<lambda>j. Num (sum_list (map (\<lambda>r. fst r ! j) rs) / real (nat number_of_subruns)))
                   [0..<axis_length]),
            Num (sum_list (map snd rs) / real (nat number_of_subruns))), s')"
proof -
  have len: "length rs = nat number_of_subruns"
    using length_sample_times[of sampler "nat number_of_subruns" s] assms(2) by simp
  then have ne: "rs \<noteq> []"
    using assms(1) by auto
  have loop: "collect_loop sampler (nat number_of_subruns) s [] [] =
      ((map (map Num) (map fst rs), map Num (map snd rs)), s')"
    using collect_loop_sample_times[OF assms(2), of "[]" "[]"] by (simp add: comp_def)
  have mean: "np_mean_axis0 (map (map Num) (map fst rs)) =
      Inr (Vec (map (\<lambda>j. Num (sum_list (map (\<lambda>r. r ! j) (map fst rs)) / real (length (map fst rs))))
                  [0..<axis_length]))"
    using ne assms(3) by (intro np_mean_axis0_Num) auto
  have pw: "np_mean (map Num (map snd rs)) = Num (sum_list (map snd rs) / real (length (map snd rs)))"
    using ne by (intro np_mean_Num) simp
  show ?thesis
    unfolding collect_intensities_def loop prod.case mean sum.case pw
    using len by (simp add: comp_def)
qed


text \<open>
  A sampler that counts its invocations: started at 1 and run for three subruns it ends
  at 4, and the three spectra (1, 2, 6), (2, 4, 6), (3, 6, 6) and powers 2, 3, 4 average to
  (2, 4, 6) and 3.
\<close>

theorem collect_intensities_averages_witness:
  "collect_intensities (\<lambda>k. (([Num (real k), Num (real (2 * k)), Num 6], Num (real k + 1)), Suc k)) 3 (1::nat)
     = (Inr (Vec [Num 2, Num 4, Num 6], Num 3), 4)"
  using collect_intensities_averages[of 3 "\<lambda>k. (([Num (real k), Num (real (2 * k)), Num 6], Num (real k + 1)), Suc k)" "1::nat"
      "[([1, 2, 6], 2), ([2, 4, 6], 3), ([3, 6, 6], 4)]" 4 3]
  by (simp add: eval_nat_numeral)

lemma gradient_length: "gradient f = Inr g \<Longrightarrow> length g = length f \<and> 2 \<le> length f"
  by (auto simp add: gradient_def Let_def split: if_splits)

lemma gradient_nth:
  "gradient f = Inr g \<Longrightarrow> i < length f \<Longrightarrow>
   g ! i = (if i = 0 then fsub (f ! 1) (f ! 0)
            else if i = length f - 1 then fsub (f ! i) (f ! (i - 1))
            else fdiv (fsub (f ! (i + 1)) (f ! (i - 1))) (Num 2))"
  by (auto simp add: gradient_def Let_def numeral_2_eq_2 split: if_splits)

text \<open>
  Claim C2. With the spacing column taken once by \<^verbatim>\<open>init_spec\<close> as the gradient of the
  instrument's wavelengths (centered differences inside, one-sided at the two ends), the
  conversion of a raw spectrum is, at each point and in this order: minus dark, times
  calibration, divided by the spacing, times the wavelength, divided by 1000.
\<close>

theorem photon_counts_pointwise:
  assumes "init_spec wl = Inr df0"
    and "length dark = length wl" and "length cal = length wl" and "length raw = length wl"
  shows "\<exists>r. photon_counts (df0\<lparr>df_dark := Some dark, df_irradcal := Some cal\<rparr>) (Vec raw) = Inr r
     \<and> length r = length wl
     \<and> (\<forall>i<length wl.
           r ! i = fdiv (fmul (fdiv (fmul (fsub (raw ! i) (dark ! i)) (cal ! i))
                                    (df_delta_x df0 ! i)) (wl ! i)) (Num 1000)
         \<and> df_delta_x df0 ! i =
             (if i = 0 then fsub (wl ! 1) (wl ! 0)
              else if i = length wl - 1 then fsub (wl ! i) (wl ! (i - 1))
              else fdiv (fsub (wl ! (i + 1)) (wl ! (i - 1))) (Num 2)))"
proof -
  obtain dx where g: "gradient wl = Inr dx"
    and df0: "df0 = \<lparr>df_wavelength = wl, df_delta_x = dx, df_dark = None, df_irradcal = None\<rparr>"
    using assms(1) by (cases "gradient wl") (auto simp add: init_spec_def)
  have ldx: "length dx = length wl"
    using gradient_length[OF g] by simp
  let ?r = "map (\<lambda>x. fdiv x (Num 1000))
              (map2 fmul (map2 fdiv (map2 fmul (map2 fsub raw dark) cal) dx) wl)"
  have "photon_counts (df0\<lparr>df_dark := Some dark, df_irradcal := Some cal\<rparr>) (Vec raw) = Inr ?r"
    using assms(2-4) by (simp add: photon_counts_def df0)
  moreover have "length ?r = length wl"
    using assms(2-4) ldx by simp
  moreover have "\<forall>i<length wl.
      ?r ! i = fdiv (fmul (fdiv (fmul (fsub (raw ! i) (dark ! i)) (cal ! i)) (dx ! i)) (wl ! i)) (Num 1000)"
    using assms(2-4) ldx by simp
  moreover have "\<forall>i<length wl. dx ! i =
             (if i = 0 then fsub (wl ! 1) (wl ! 0)
              else if i = length wl - 1 then fsub (wl ! i) (wl ! (i - 1))
              else fdiv (fsub (wl ! (i + 1)) (wl ! (i - 1))) (Num 2))"
    using gradient_nth[OF g] by blast
  ultimately show ?thesis
    unfolding df0 by (intro exI[of _ ?r]) simp
qed

text \<open>
  Three wavelengths 400, 402, 406 with spacings 2, 3, 4: the middle point gives
  \<open>(210 - 10) * 3 / 3 * 402 / 1000 = 80.4\<close>.
\<close>

theorem photon_counts_pointwise_witness:
  "init_spec [Num 400, Num 402, Num 406] =
     Inr \<lparr>df_wavelength = [Num 400, Num 402, Num 406], df_delta_x = [Num 2, Num 3, Num 4],
          df_dark = None, df_irradcal = None\<rparr>
   \<and> (\<exists>r. photon_counts
            \<lparr>df_wavelength = [Num 400, Num 402, Num 406], df_delta_x = [Num 2, Num 3, Num 4],
             df_dark = Some [Num 10, Num 10, Num 10], df_irradcal = Some [Num 2, Num 3, Num 5]\<rparr>
            (Vec [Num 110, Num 210, Num 410]) = Inr r
          \<and> length r = 3 \<and> r ! 0 = Num 40 \<and> r ! 1 = Num (804 / 10) \<and> r ! 2 = Num 203)"
proof -
  have i: "init_spec [Num 400, Num 402, Num 406] =
     Inr \<lparr>df_wavelength = [Num 400, Num 402, Num 406], df_delta_x = [Num 2, Num 3, Num 4],
          df_dark = None, df_irradcal = None\<rparr>"
    by (simp add: init_spec_def gradient_def fsub_def upt_rec)
  from photon_counts_pointwise[OF i, of "[Num 10, Num 10, Num 10]" "[Num 2, Num 3, Num 5]" "[Num 110, Num 210, Num 410]"]
  obtain r where r: "photon_counts
            \<lparr>df_wavelength = [Num 400, Num 402, Num 406], df_delta_x = [Num 2, Num 3, Num 4],
             df_dark = Some [Num 10, Num 10, Num 10], df_irradcal = Some [Num 2, Num 3, Num 5]\<rparr>
            (Vec [Num 110, Num 210, Num 410]) = Inr r"
     "length r = 3"
     "\<forall>i<3. r ! i = fdiv (fmul (fdiv (fmul (fsub ([Num 110, Num 210, Num 410] ! i) ([Num 10, Num 10, Num 10] ! i)) ([Num 2, Num 3, Num 5] ! i))
                                    ([Num 2, Num 3, Num 4] ! i)) ([Num 400, Num 402, Num 406] ! i)) (Num 1000)"
    by auto
  from r(3) have "r ! 0 = Num 40" "r ! 1 = Num (804 / 10)" "r ! 2 = Num 203"
    by (simp_all add: fsub_def)
  with i r(1,2) show ?thesis
    by blast
qed

section \<open>Saving and reloading: the round trip\<close>

lemma filter_zip_all:
  "length idx = length ls \<Longrightarrow> \<forall>i\<in>set idx. P i \<Longrightarrow>
   map snd (filter (\<lambda>p. P (fst p)) (zip idx ls)) = ls"
proof (induction idx arbitrary: ls)
  case Nil
  then show ?case by simp
next
  case (Cons i idx)
  then show ?case by (cases ls) simp_all
qed

lemma filter_zip_none:
  "\<forall>i\<in>set idx. \<not> P i \<Longrightarrow> filter (\<lambda>p. P (fst p)) (zip idx ls) = []"
proof (induction idx arbitrary: ls)
  case Nil
  then show ?case by simp
next
  case (Cons i idx)
  then show ?case by (cases ls) simp_all
qed

lemma upt_three: "[0..<Suc (Suc (Suc n))] = 0 # 1 # 2 # [3..<3 + n]"
  by (simp add: upt_rec[of 0] upt_rec[of 1] upt_rec[of "Suc 0"] upt_rec[of 2] upt_rec[of "Suc (Suc 0)"] numeral_3_eq_3 numeral_2_eq_2 del: upt_Suc)

lemma skip_three:
  "map snd (filter (\<lambda>p. \<not> fst p < 3) (zip [0..<length (a # b # c # rest)] (a # b # c # rest))) = rest"
proof -
  have "map snd (filter (\<lambda>p. \<not> fst p < 3) (zip [3..<3 + length rest] rest)) = rest"
    by (rule filter_zip_all) auto
  then show ?thesis
    by (simp add: upt_three del: upt_Suc)
qed

lemma keep_two:
  "map snd (filter (\<lambda>p. \<not> fst p \<notin> {0, 1}) (zip [0..<length (a # b # c # rest)] (a # b # c # rest)))
     = [a, b]"
proof -
  have "filter (\<lambda>p. \<not> fst p \<notin> {0, 1}) (zip [3..<3 + length rest] rest) = []"
    by (rule filter_zip_none) auto
  then show ?thesis
    by (simp add: upt_three del: upt_Suc)
qed


lemma nrows_rect: "df \<noteq> [] \<Longrightarrow> \<forall>p\<in>set df. length (snd p) = n \<Longrightarrow> nrows df = n"
  by (cases df) (simp_all add: nrows_def)

lemma parse_to_csv:
  assumes ne: "df \<noteq> []" and rect: "\<forall>p\<in>set df. length (snd p) = n"
  shows "parse_table parse (to_csv render df)
     = Inr (map (\<lambda>p. (fst p, map (\<lambda>v. parse (render v)) (snd p))) df)"
proof -
  let ?rows = "map (\<lambda>i. map (\<lambda>p. render (snd p ! i)) df) [0..<n]"
  have csv: "to_csv render df = map fst df # ?rows"
    by (simp add: to_csv_def nrows_rect[OF ne rect])
  have nonblank: "filter (\<lambda>l. l \<noteq> []) (map fst df # ?rows) = map fst df # ?rows"
    using ne by (simp add: filter_id_conv)
  have nolong: "\<not> list_ex (\<lambda>r. length (map fst df) < length r) ?rows"
    by (simp add: list_ex_iff)
  have cols: "map (\<lambda>j. (map fst df ! j,
                 map (\<lambda>r. if j < length r then parse (r ! j) else NaN) ?rows))
               [0..<length (map fst df)]
      = map (\<lambda>p. (fst p, map (\<lambda>v. parse (render v)) (snd p))) df"
  proof (rule nth_equalityI)
    show "length (map (\<lambda>j. (map fst df ! j,
                 map (\<lambda>r. if j < length r then parse (r ! j) else NaN) ?rows))
               [0..<length (map fst df)])
        = length (map (\<lambda>p. (fst p, map (\<lambda>v. parse (render v)) (snd p))) df)"
      by simp
  next
    fix j
    assume "j < length (map (\<lambda>j. (map fst df ! j,
                 map (\<lambda>r. if j < length r then parse (r ! j) else NaN) ?rows))
               [0..<length (map fst df)])"
    then have j: "j < length df"
      by simp
    then have lj: "length (snd (df ! j)) = n"
      using rect by simp
    have "map (\<lambda>r. if j < length r then parse (r ! j) else NaN) ?rows
        = map (\<lambda>i. parse (render (snd (df ! j) ! i))) [0..<n]"
      using j by (simp add: comp_def)
    also have "\<dots> = map (\<lambda>v. parse (render v)) (map (\<lambda>i. snd (df ! j) ! i) [0..<length (snd (df ! j))])"
      by (simp add: lj comp_def)
    also have "\<dots> = map (\<lambda>v. parse (render v)) (snd (df ! j))"
      by (simp only: map_nth)
    finally show "map (\<lambda>j. (map fst df ! j,
                 map (\<lambda>r. if j < length r then parse (r ! j) else NaN) ?rows))
               [0..<length (map fst df)] ! j
        = map (\<lambda>p. (fst p, map (\<lambda>v. parse (render v)) (snd p))) df ! j"
      using j by (simp cong: if_cong)
  qed
  show ?thesis
    unfolding parse_table_def csv nonblank list.case using nolong cols by simp
qed

lemma save_and_reload_exact:
  assumes "df \<noteq> []" and "\<forall>p\<in>set df. length (snd p) = n"
    and "df_power \<noteq> []" and "\<forall>p\<in>set df_power. length (snd p) = 1"
  shows "save_and_reload render parse df df_power =
     Inr (map (\<lambda>p. (fst p, map (\<lambda>v. parse (render v)) (snd p))) df,
          map (\<lambda>p. (fst p, map (\<lambda>v. parse (render v)) (snd p))) df_power)"
proof -
  obtain h r where pw: "to_csv render df_power = [h, r]"
    by (simp add: to_csv_def nrows_rect[OF assms(3,4)])
  have wf: "written_file render df df_power = h # r # [] # to_csv render df"
    by (simp add: written_file_def pw)
  have a: "read_csv parse (\<lambda>x. x < 3) (h # r # [] # to_csv render df)
      = Inr (map (\<lambda>p. (fst p, map (\<lambda>v. parse (render v)) (snd p))) df)"
    unfolding read_csv_def skip_three by (rule parse_to_csv[OF assms(1,2)])
  have b: "read_csv parse (\<lambda>x. x \<notin> {0, 1}) (h # r # [] # to_csv render df)
      = Inr (map (\<lambda>p. (fst p, map (\<lambda>v. parse (render v)) (snd p))) df_power)"
    unfolding read_csv_def keep_two pw[symmetric] by (rule parse_to_csv[OF assms(3,4)])
  show ?thesis
    unfolding save_and_reload_def Let_def wf a b by simp
qed


lemma columns_close:
  assumes "\<forall>p\<in>set df. \<forall>v\<in>set (snd p). close (parse (render v)) v"
  shows "list_all2 (\<lambda>c' c. list_all2 close c' c)
           (map snd (map (\<lambda>p. (fst p, map (\<lambda>v. parse (render v)) (snd p))) df)) (map snd df)"
  using assms by (simp add: list_all2_map1 list_all2_map2 list_all2_same)

text \<open>What is read back is as close to what was written as the float codec keeps it.\<close>

lemma save_and_reload_close:
  assumes "df \<noteq> []" and "\<forall>p\<in>set df. length (snd p) = n"
    and "df_power \<noteq> []" and "\<forall>p\<in>set df_power. length (snd p) = 1"
    and "\<forall>p\<in>set df. \<forall>v\<in>set (snd p). close (parse (render v)) v"
    and "\<forall>p\<in>set df_power. \<forall>v\<in>set (snd p). close (parse (render v)) v"
  shows "\<exists>df_reloaded df_power_reloaded.
      save_and_reload render parse df df_power = Inr (df_reloaded, df_power_reloaded)
    \<and> map fst df_reloaded = map fst df
    \<and> map fst df_power_reloaded = map fst df_power
    \<and> list_all2 (\<lambda>c' c. list_all2 close c' c) (map snd df_reloaded) (map snd df)
    \<and> list_all2 (\<lambda>c' c. list_all2 close c' c) (map snd df_power_reloaded) (map snd df_power)"
  unfolding save_and_reload_exact[OF assms(1-4)]
  using columns_close[of df close parse render, OF assms(5)]
    columns_close[of df_power close parse render, OF assms(6)]
  by (simp add: comp_def)

lemma set_dict_set: "set (dict_set d k v) \<subseteq> insert (k, v) (set d)"
  by (induction d) auto

lemma dict_set_nonempty [simp]: "dict_set d k v \<noteq> []"
  by (cases d) simp_all

lemma dict_set_all:
  "\<forall>p\<in>set d. P p \<Longrightarrow> P (k, v) \<Longrightarrow> \<forall>p\<in>set (dict_set d k v). P p"
  using set_dict_set[of d k v] by auto

lemma array_sub_series_length:
  "array_sub_series a col = Inr r \<Longrightarrow> length r = length col"
  by (cases a) (auto split: if_splits)

lemma photon_counts_length:
  assumes "init_df_rows df n" and "photon_counts df a = Inr c"
  shows "length c = n"
proof -
  from assms(2) obtain d where d: "df_dark df = Some d"
    by (cases "df_dark df") (simp_all add: photon_counts_def)
  from assms(2) d obtain sub where sub: "array_sub_series a d = Inr sub"
    by (cases "array_sub_series a d") (simp_all add: photon_counts_def)
  from assms(2) d sub obtain cal where cal: "df_irradcal df = Some cal"
    by (cases "df_irradcal df") (simp_all add: photon_counts_def)
  have "length sub = n" "length cal = n" "length (df_delta_x df) = n" "length (df_wavelength df) = n"
    using assms(1) d cal array_sub_series_length[OF sub] by (simp_all add: init_df_rows_def)
  then show ?thesis
    using assms(2) d sub cal by (auto simp add: photon_counts_def)
qed

lemma collect_multi_loop_shape:
  assumes "init_df_rows df L"
    and "collect_multi_loop sampler subruns df k n s inten pows = (Inr (inten', pows'), s')"
    and "\<forall>p\<in>set inten. length (snd p) = L" and "\<forall>p\<in>set pows. length (snd p) = 1"
    and "inten = [] \<longleftrightarrow> pows = []"
  shows "(\<forall>p\<in>set inten'. length (snd p) = L) \<and> (\<forall>p\<in>set pows'. length (snd p) = 1)
       \<and> (inten' = [] \<longleftrightarrow> pows' = [])"
  using assms(2-5)
proof (induction k arbitrary: n s inten pows)
  case 0
  then show ?case by simp
next
  case (Suc k)
  from Suc.prems(1) obtain intensities power_meas s1 where
    ci: "collect_intensities sampler subruns s = (Inr (intensities, power_meas), s1)"
    by (cases "collect_intensities sampler subruns s" rule: prod.exhaust)
       (auto split: sum.splits)
  from Suc.prems(1) ci obtain counts where pc: "photon_counts df intensities = Inr counts"
    by (cases "photon_counts df intensities") simp_all
  have rec: "collect_multi_loop sampler subruns df k (Suc n) s1
               (dict_set inten (''meas_'' @ str_nat n) counts)
               (dict_set pows (''meas'' @ str_nat n @ ''_power'') [power_meas])
             = (Inr (inten', pows'), s')"
    using Suc.prems(1) ci pc by simp
  have lc: "length counts = L"
    using photon_counts_length[OF assms(1) pc] .
  show ?case
  proof (rule Suc.IH[OF rec])
    show "\<forall>p\<in>set (dict_set inten (''meas_'' @ str_nat n) counts). length (snd p) = L"
      using Suc.prems(2) lc by (intro dict_set_all) simp_all
    show "\<forall>p\<in>set (dict_set pows (''meas'' @ str_nat n @ ''_power'') [power_meas]). length (snd p) = 1"
      using Suc.prems(3) by (intro dict_set_all) simp_all
    show "(dict_set inten (''meas_'' @ str_nat n) counts = []) =
          (dict_set pows (''meas'' @ str_nat n @ ''_power'') [power_meas] = [])"
      by simp
  qed
qed

lemma length_row_means: "length (row_means df) = nrows df"
  by (simp add: row_means_def)

lemma collect_multi_shape:
  assumes "init_df_rows df L"
    and "collect_multi sampler subruns df number_of_meas s = (Inr (df_multi, df_power), s')"
  shows "df_multi \<noteq> [] \<and> (\<forall>p\<in>set df_multi. length (snd p) = L)
       \<and> df_power \<noteq> [] \<and> (\<forall>p\<in>set df_power. length (snd p) = 1)"
proof -
  from assms(2) obtain inten pows where
    loop: "collect_multi_loop sampler subruns df (nat number_of_meas) 0 s [] [] = (Inr (inten, pows), s')"
    and ne: "inten \<noteq> []"
    and dm: "df_multi = (''wavelength'', df_wavelength df) #
               dict_set inten ''mean_photon_counts'' (row_means inten)"
    and dp: "df_power = dict_set pows ''laser_power_mean_uA'' (row_means pows)"
    by (cases "collect_multi_loop sampler subruns df (nat number_of_meas) 0 s [] []" rule: prod.exhaust)
       (auto simp add: collect_multi_def Let_def split: sum.splits if_splits)
  from collect_multi_loop_shape[OF assms(1) loop]
  have i: "\<forall>p\<in>set inten. length (snd p) = L" and p: "\<forall>p\<in>set pows. length (snd p) = 1"
    and e: "inten = [] \<longleftrightarrow> pows = []"
    by simp_all
  have ni: "nrows inten = L"
    using ne i by (rule nrows_rect)
  have np: "nrows pows = 1"
    using ne e p by (intro nrows_rect) simp_all
  have "\<forall>p\<in>set (dict_set inten ''mean_photon_counts'' (row_means inten)). length (snd p) = L"
    using i by (intro dict_set_all) (simp_all add: length_row_means ni)
  moreover have "length (df_wavelength df) = L"
    using assms(1) by (simp add: init_df_rows_def)
  moreover have "\<forall>p\<in>set (dict_set pows ''laser_power_mean_uA'' (row_means pows)). length (snd p) = 1"
    using p by (intro dict_set_all) (simp_all add: length_row_means np)
  ultimately show ?thesis
    unfolding dm dp by simp
qed

text \<open>
  Claim C8. The tables that \<^verbatim>\<open>collect_multi\<close> returns, a power table of one row and a
  spectrum table, are written by \<^verbatim>\<open>collect_blank\<close> to a new file as power table, blank
  line and spectrum table, and read back with the same column names in the same order
  and, column by column and row by row, with values as close to the written ones as
  writing and reading a single float keeps them. This covers the columns of the
  measurements, the column \<^verbatim>\<open>mean_photon_counts\<close> and the powers.
\<close>

theorem collect_blank_roundtrip:
  assumes "init_df_rows df L"
    and "collect_multi sampler subruns df number_of_meas s = (Inr (df_blank, df_blank_power), s')"
    and "\<forall>p\<in>set df_blank. \<forall>v\<in>set (snd p). close (parse (render v)) v"
    and "\<forall>p\<in>set df_blank_power. \<forall>v\<in>set (snd p). close (parse (render v)) v"
  shows "\<exists>df_reloaded df_power_reloaded.
      collect_blank render parse sampler subruns df number_of_meas s
        = (Inr ((df_blank, df_blank_power), (df_reloaded, df_power_reloaded)), s')
    \<and> map fst df_reloaded = map fst df_blank
    \<and> map fst df_power_reloaded = map fst df_blank_power
    \<and> list_all2 (\<lambda>c' c. list_all2 close c' c) (map snd df_reloaded) (map snd df_blank)
    \<and> list_all2 (\<lambda>c' c. list_all2 close c' c) (map snd df_power_reloaded) (map snd df_blank_power)"
proof -
  from collect_multi_shape[OF assms(1,2)]
  have sh: "df_blank \<noteq> []" "\<forall>p\<in>set df_blank. length (snd p) = L"
    "df_blank_power \<noteq> []" "\<forall>p\<in>set df_blank_power. length (snd p) = 1"
    by simp_all
  from save_and_reload_close[where close = close and parse = parse and render = render,
      OF sh assms(3,4)]
  obtain r rp where "save_and_reload render parse df_blank df_blank_power = Inr (r, rp)"
    and "map fst r = map fst df_blank" and "map fst rp = map fst df_blank_power"
    and "list_all2 (\<lambda>c' c. list_all2 close c' c) (map snd r) (map snd df_blank)"
    and "list_all2 (\<lambda>c' c. list_all2 close c' c) (map snd rp) (map snd df_blank_power)"
    by blast
  then show ?thesis
    by (simp add: collect_blank_def assms(2))
qed

text \<open>
  Two measurements of one subrun each on a two-point axis, and a codec with closeness
  within a thousandth.
\<close>

theorem collect_blank_roundtrip_witness:
  "\<exists>df_reloaded df_power_reloaded.
      collect_blank
        (\<lambda>v. if v = Num 400 then ''400.0'' else if v = Num 402 then ''402.0''
             else if v = Num 40 then ''40.0'' else if v = Num (201 / 5) then ''40.2'' else ''5.0'')
        (\<lambda>s. if s = ''400.0'' then Num 400 else if s = ''402.0'' then Num 402
             else if s = ''40.0'' then Num 40 else if s = ''40.2'' then Num (402 / 10) else Num 5)
        (\<lambda>s. (([Num 110, Num 210], Num 5), s)) 1
        \<lparr>df_wavelength = [Num 400, Num 402], df_delta_x = [Num 2, Num 2],
         df_dark = Some [Num 10, Num 10], df_irradcal = Some [Num 2, Num 1]\<rparr>
        2 ()
      = (Inr (([(''wavelength'', [Num 400, Num 402]), (''meas_0'', [Num 40, Num (201 / 5)]),
                (''meas_1'', [Num 40, Num (201 / 5)]), (''mean_photon_counts'', [Num 40, Num (201 / 5)])],
               [(''meas0_power'', [Num 5]), (''meas1_power'', [Num 5]), (''laser_power_mean_uA'', [Num 5])]),
              (df_reloaded, df_power_reloaded)), ())
    \<and> map fst df_reloaded = [''wavelength'', ''meas_0'', ''meas_1'', ''mean_photon_counts'']
    \<and> map fst df_power_reloaded = [''meas0_power'', ''meas1_power'', ''laser_power_mean_uA'']
    \<and> list_all2 (\<lambda>c' c. list_all2 (\<lambda>x y. case (x, y) of (Num a, Num b) \<Rightarrow> \<bar>a - b\<bar> < 1 / 1000 | _ \<Rightarrow> False) c' c)
          (map snd df_reloaded)
          [[Num 400, Num 402], [Num 40, Num (201 / 5)], [Num 40, Num (201 / 5)], [Num 40, Num (201 / 5)]]
    \<and> list_all2 (\<lambda>c' c. list_all2 (\<lambda>x y. case (x, y) of (Num a, Num b) \<Rightarrow> \<bar>a - b\<bar> < 1 / 1000 | _ \<Rightarrow> False) c' c)
          (map snd df_power_reloaded) [[Num 5], [Num 5], [Num 5]]"
proof -
  have run: "collect_multi (\<lambda>s. (([Num 110, Num 210], Num 5), s)) 1
        \<lparr>df_wavelength = [Num 400, Num 402], df_delta_x = [Num 2, Num 2],
         df_dark = Some [Num 10, Num 10], df_irradcal = Some [Num 2, Num 1]\<rparr>
        2 ()
      = (Inr ([(''wavelength'', [Num 400, Num 402]), (''meas_0'', [Num 40, Num (201 / 5)]),
                (''meas_1'', [Num 40, Num (201 / 5)]), (''mean_photon_counts'', [Num 40, Num (201 / 5)])],
               [(''meas0_power'', [Num 5]), (''meas1_power'', [Num 5]), (''laser_power_mean_uA'', [Num 5])]), ())"
    by (simp add: collect_multi_def collect_intensities_def np_mean_axis0_def np_mean_def fsum_def
        photon_counts_def fsub_def str_nat.simps digit_char_def row_means_def nanmean_def nrows_def
        eval_nat_numeral upt_rec)
  have rows: "init_df_rows \<lparr>df_wavelength = [Num 400, Num 402], df_delta_x = [Num 2, Num 2],
         df_dark = Some [Num 10, Num 10], df_irradcal = Some [Num 2, Num 1]\<rparr> 2"
    by (simp add: init_df_rows_def)
  show ?thesis
    using collect_blank_roundtrip[OF rows run,
        of "\<lambda>x y. case (x, y) of (Num a, Num b) \<Rightarrow> \<bar>a - b\<bar> < 1 / 1000 | _ \<Rightarrow> False"
        "\<lambda>s. if s = ''400.0'' then Num 400 else if s = ''402.0'' then Num 402
             else if s = ''40.0'' then Num 40 else if s = ''40.2'' then Num (402 / 10) else Num 5"
        "\<lambda>v. if v = Num 400 then ''400.0'' else if v = Num 402 then ''402.0''
             else if v = Num 40 then ''40.0'' else if v = Num (201 / 5) then ''40.2'' else ''5.0''"]
    by simp
qed

end
